theory Spec2Isabelle
  imports Main "HOL-Library.Word"
begin

unbundle bit_operations_syntax

section \<open>The event handlers of the window manager (event.c)\<close>

text \<open>
  A shallow embedding of \<^verbatim>\<open>src/src/event.c\<close>. Every handler is a function from the
  event and the state before to the state after. The state holds the global and
  function-static variables the handlers read and write, the client registry, and a
  trace of the calls made to the display library and to the other modules of the
  program, in the order they are made. The build modelled is the one without
  \<^verbatim>\<open>USE_SHAPE\<close>.
\<close>

subsection \<open>Identifiers and constants of the display library\<close>

type_synonym Window = nat
type_synonym Atom = nat
type_synonym Colormap = nat

text \<open>Timestamps are 32-bit values on the wire; \<^verbatim>\<open>abs\<close> reads the difference of
  two of them as an \<^verbatim>\<open>int\<close>, that is as a signed 32-bit value.\<close>

type_synonym Time = "32 word"

text \<open>The arithmetic of the C type \<^verbatim>\<open>int\<close>. A value is a 32-bit two's complement
  number, kept here as the integer it stands for. A sum or difference that leaves the
  range wraps around, as it does in the compiled code, and \<^verbatim>\<open>abs\<close> of the least
  value is the least value itself.\<close>

definition int32 :: "int \<Rightarrow> int" where
  "int32 v = sint (word_of_int v :: 32 word)"

definition c_add :: "int \<Rightarrow> int \<Rightarrow> int" where
  "c_add a b = int32 (a + b)"

definition c_sub :: "int \<Rightarrow> int \<Rightarrow> int" where
  "c_sub a b = int32 (a - b)"

definition c_abs :: "int \<Rightarrow> int" where
  "c_abs a = int32 \<bar>a\<bar>"

definition ButtonPress :: int where "ButtonPress = 4"
definition ButtonRelease :: int where "ButtonRelease = 5"

definition Button1 :: nat where "Button1 = 1"
definition Button2 :: nat where "Button2 = 2"
definition Button3 :: nat where "Button3 = 3"

definition CWX :: nat where "CWX = 1"
definition CWY :: nat where "CWY = 2"
definition CWWidth :: nat where "CWWidth = 4"
definition CWHeight :: nat where "CWHeight = 8"

definition Above :: int where "Above = 0"

definition XTrue :: int where "XTrue = 1"

definition WithdrawnState :: int where "WithdrawnState = 0"
definition NormalState :: int where "NormalState = 1"
definition IconicState :: int where "IconicState = 3"

definition XA_WM_HINTS :: Atom where "XA_WM_HINTS = 35"
definition XA_WM_CLIENT_MACHINE :: Atom where "XA_WM_CLIENT_MACHINE = 36"
definition XA_WM_ICON_NAME :: Atom where "XA_WM_ICON_NAME = 37"
definition XA_WM_NAME :: Atom where "XA_WM_NAME = 39"
definition XA_WM_NORMAL_HINTS :: Atom where "XA_WM_NORMAL_HINTS = 40"

subsection \<open>Constants of the headers that are not among the sources\<close>

text \<open>Modelled from the spec: \<^verbatim>\<open>client.h\<close> is missing. The status flags are
  independent booleans kept in one bit mask (spec, section 3), so each is a bit of its
  own; the handlers only ever test, set and clear single flags.\<close>

definition STAT_ACTIVE :: "32 word" where "STAT_ACTIVE = 1"
definition STAT_MAPPED :: "32 word" where "STAT_MAPPED = 2"
definition STAT_MAXIMIZED :: "32 word" where "STAT_MAXIMIZED = 4"
definition STAT_HIDDEN :: "32 word" where "STAT_HIDDEN = 8"
definition STAT_STICKY :: "32 word" where "STAT_STICKY = 16"
definition STAT_NOLIST :: "32 word" where "STAT_NOLIST = 32"
definition STAT_MINIMIZED :: "32 word" where "STAT_MINIMIZED = 64"
definition STAT_SHADED :: "32 word" where "STAT_SHADED = 128"
definition STAT_WITHDRAWN :: "32 word" where "STAT_WITHDRAWN = 256"
definition STAT_USESHAPE :: "32 word" where "STAT_USESHAPE = 512"
definition STAT_WMDIALOG :: "32 word" where "STAT_WMDIALOG = 1024"

text \<open>Modelled from the spec: \<^verbatim>\<open>client.h\<close> is missing. The border style has the
  two flags hasOutline and hasTitleBar (spec, section 3).\<close>

definition BORDER_OUTLINE :: "16 word" where "BORDER_OUTLINE = 1"
definition BORDER_TITLE :: "16 word" where "BORDER_TITLE = 2"

text \<open>Modelled from the spec: \<^verbatim>\<open>border.h\<close> is missing. An action zone (spec,
  section 4.4) is a class in the low four bits (none, resize, move or title bar, close,
  maximize, minimize) and, for a resize zone, the directions in the bits above, which
  the dispatch masks away.\<close>

type_synonym BorderActionType = "32 word"

definition BA_NONE :: BorderActionType where "BA_NONE = 0"
definition BA_RESIZE :: BorderActionType where "BA_RESIZE = 1"
definition BA_MOVE :: BorderActionType where "BA_MOVE = 2"
definition BA_CLOSE :: BorderActionType where "BA_CLOSE = 3"
definition BA_MAXIMIZE :: BorderActionType where "BA_MAXIMIZE = 4"
definition BA_MINIMIZE :: BorderActionType where "BA_MINIMIZE = 5"

text \<open>Modelled from the spec: \<^verbatim>\<open>key.h\<close> is missing. A binding resolves to a
  command code in the low byte and an optional numeric argument in the bits above
  (spec, section 4.5).\<close>

type_synonym KeyType = "32 word"

definition KEY_NONE :: KeyType where "KEY_NONE = 0"
definition KEY_NEXT :: KeyType where "KEY_NEXT = 7"
definition KEY_CLOSE :: KeyType where "KEY_CLOSE = 9"
definition KEY_MIN :: KeyType where "KEY_MIN = 10"
definition KEY_MAX :: KeyType where "KEY_MAX = 11"
definition KEY_SHADE :: KeyType where "KEY_SHADE = 12"
definition KEY_MOVE :: KeyType where "KEY_MOVE = 13"
definition KEY_RESIZE :: KeyType where "KEY_RESIZE = 14"
definition KEY_ROOT :: KeyType where "KEY_ROOT = 15"
definition KEY_WIN :: KeyType where "KEY_WIN = 16"
definition KEY_DESKTOP :: KeyType where "KEY_DESKTOP = 17"
definition KEY_EXEC :: KeyType where "KEY_EXEC = 18"
definition KEY_RESTART :: KeyType where "KEY_RESTART = 19"
definition KEY_EXIT :: KeyType where "KEY_EXIT = 20"

text \<open>Modelled from the spec: the header with the flags of the state-flags message is
  missing; sticky and hidden are two distinct bits of its mask.\<close>

definition WIN_STATE_STICKY :: int where "WIN_STATE_STICKY = 1"
definition WIN_STATE_HIDDEN :: int where "WIN_STATE_HIDDEN = 16"

datatype FocusModelType = FOCUS_SLOPPY | FOCUS_CLICK

text \<open>The atoms that event.c looks up in the table \<^verbatim>\<open>atoms\<close>.\<close>

datatype AtomType =
    ATOM_WM_CHANGE_STATE
  | ATOM_WM_COLORMAP_WINDOWS
  | ATOM_WIN_STATE
  | ATOM_WIN_LAYER
  | ATOM_NET_ACTIVE_WINDOW
  | ATOM_NET_WM_DESKTOP
  | ATOM_NET_CLOSE_WINDOW
  | ATOM_NET_WM_STATE
  | ATOM_NET_WM_STATE_STICKY
  | ATOM_NET_WM_STATE_MAXIMIZED_VERT
  | ATOM_NET_WM_STATE_MAXIMIZED_HORZ
  | ATOM_NET_WM_STATE_SHADED
  | ATOM_NET_WM_NAME
  | ATOM_NET_WM_ICON
  | ATOM_JWM_RESTART
  | ATOM_JWM_EXIT

subsection \<open>Clients\<close>

record ClientState =
  status :: "32 word"
  border :: "16 word"
  layer :: "8 word"
  defaultLayer :: "8 word"
  desktop :: "32 word"
  opacity :: "32 word"

text \<open>A client node. \<open>c_controller\<close> says whether the callback pointer is non-null;
  a call of the callback is an entry of the trace.\<close>

record ClientNode =
  c_window :: Window
  c_parent :: Window
  c_x :: int
  c_y :: int
  c_width :: int
  c_height :: int
  c_cmap :: Colormap
  c_state :: ClientState
  c_borderAction :: BorderActionType
  c_controller :: bool

subsection \<open>Events\<close>

record XWindowChanges =
  wc_x :: int
  wc_y :: int
  wc_width :: int
  wc_height :: int
  wc_border_width :: int
  wc_sibling :: Window
  wc_stack_mode :: int

record XConfigureRequestEvent =
  cr_window :: Window
  cr_x :: int
  cr_y :: int
  cr_width :: int
  cr_height :: int
  cr_border_width :: int
  cr_above :: Window
  cr_detail :: int
  cr_value_mask :: nat

record XPropertyEvent =
  pr_window :: Window
  pr_atom :: Atom

record XClientMessageEvent =
  cm_window :: Window
  cm_message_type :: Atom
  cm_data_l :: "nat \<Rightarrow> int"

record XExposeEvent =
  ex_window :: Window
  ex_count :: int

record XColormapEvent =
  co_window :: Window
  co_colormap :: Colormap
  co_new :: int

record XButtonEvent =
  b_type :: int
  b_window :: Window
  b_button :: nat
  b_x :: int
  b_y :: int
  b_time :: Time

record XKeyEvent =
  k_window :: Window
  k_subwindow :: Window
  k_keycode :: nat
  k_state :: nat

text \<open>The event union, tagged by its type. Map, unmap, destroy and configure-notify
  events are read for their window only.\<close>

datatype XEvent =
    EvConfigureRequest XConfigureRequestEvent
  | EvMapRequest Window
  | EvPropertyNotify XPropertyEvent
  | EvClientMessage XClientMessageEvent
  | EvUnmapNotify Window
  | EvExpose XExposeEvent
  | EvColormapNotify XColormapEvent
  | EvDestroyNotify Window
  | EvConfigureNotify Window
  | EvCreateNotify
  | EvMapNotify
  | EvNoExpose
  | EvReparentNotify
  | EvGraphicsExpose
  | EvButton XButtonEvent
  | EvKeyPress XKeyEvent
  | EvOther nat

subsection \<open>The trace of calls\<close>

text \<open>One constructor for each function of the display library or of another module
  that event.c calls for its effect. A client is named by its content window.\<close>

datatype Call =
    CallController Window int
  | CallSignalTaskbar
  | CallJXConfigureWindow Window nat XWindowChanges
  | CallJXMapWindow Window
  | CallJXUnmapWindow Window
  | CallJXSync
  | CallJXGrabServer
  | CallJXUngrabServer
  | CallJXAllowEvents
  | CallAddClientWindow Window
  | CallRemoveClient Window
  | CallRaiseClient Window
  | CallFocusClient Window
  | CallRestackClients
  | CallDeleteClient Window
  | CallShadeClient Window
  | CallUnshadeClient Window
  | CallMinimizeClient Window
  | CallMaximizeClient Window
  | CallRestoreClient Window
  | CallSetClientSticky Window int
  | CallSetClientLayer Window int
  | CallSetClientWithdrawn Window int
  | CallSetClientDesktop Window int
  | CallMoveClient Window int int
  | CallResizeClient Window BorderActionType int int
  | CallMoveClientKeyboard Window
  | CallResizeClientKeyboard Window
  | CallShowWindowMenu Window int int
  | CallShowRootMenu int int
  | CallRunKeyCommand
  | CallChangeDesktop int
  | CallNextDesktop
  | CallFocusNext
  | CallReadWMName Window
  | CallReadWMNormalHints Window
  | CallReadWMColormaps Window
  | CallUpdateClientColormap Window
  | CallLoadIcon Window
  | CallDrawBorder Window
  | CallUpdateTaskBar
  | CallUpdatePager
  | CallRestart
  | CallExit
  | CallDebug
  | CallProcessTrayEvent
  | CallProcessDialogEvent
  | CallProcessSwallowEvent
  | CallProcessPopupEvent

subsection \<open>The state\<close>

record World =
  clients :: "ClientNode list"
  shouldExit :: bool
  showMenuOnRoot :: bool
  lastClickTime :: Time
  lastX :: int
  lastY :: int
  doubleClickActive :: bool
  trace :: "Call list"

text \<open>What the handlers read and never write: the configuration, and what the
  functions of other modules return. These are parameters of the model.\<close>

record Env =
  focusModel :: FocusModelType
  desktopCount :: int
  borderWidth :: int
  titleSize :: int
  doubleClickSpeed :: int
  doubleClickDelta :: int
  rootWindow :: Window
  atoms :: "AtomType \<Rightarrow> Atom"
  GetKey :: "XKeyEvent \<Rightarrow> KeyType"
  GetBorderActionType :: "ClientNode \<Rightarrow> int \<Rightarrow> int \<Rightarrow> BorderActionType"
  GetActiveClient :: "World \<Rightarrow> nat option"
  MoveClient :: "World \<Rightarrow> ClientNode \<Rightarrow> int \<Rightarrow> int \<Rightarrow> bool"
  AddClientWindow :: "World \<Rightarrow> Window \<Rightarrow> ClientNode option"
  ProcessTrayEvent :: "World \<Rightarrow> XEvent \<Rightarrow> bool"
  ProcessDialogEvent :: "World \<Rightarrow> XEvent \<Rightarrow> bool"
  ProcessSwallowEvent :: "World \<Rightarrow> XEvent \<Rightarrow> bool"
  ProcessPopupEvent :: "World \<Rightarrow> XEvent \<Rightarrow> bool"

definition call :: "Call \<Rightarrow> World \<Rightarrow> World" where
  "call c s = s\<lparr>trace := trace s @ [c]\<rparr>"

subsection \<open>The registry\<close>

text \<open>A pointer to a client is its position in the registry.\<close>

fun find_client :: "(ClientNode \<Rightarrow> bool) \<Rightarrow> ClientNode list \<Rightarrow> nat option" where
  "find_client P [] = None"
| "find_client P (c # cs) =
     (if P c then Some 0 else map_option Suc (find_client P cs))"

text \<open>Modelled from the spec: \<^verbatim>\<open>client.c\<close> is missing. The registry resolves a
  decoration window id to its client (spec, section 4.2).\<close>

definition FindClientByParent :: "World \<Rightarrow> Window \<Rightarrow> nat option" where
  "FindClientByParent s p = find_client (\<lambda>c. c_parent c = p) (clients s)"

text \<open>Modelled from the spec: \<^verbatim>\<open>client.c\<close> is missing. The registry resolves a
  content window id to its client (spec, section 4.2); the handlers of event.c compare
  the window they looked up with both ids of the client found, so the lookup they use
  goes on to the decoration window ids when no content window id matches.\<close>

definition FindClientByWindow :: "World \<Rightarrow> Window \<Rightarrow> nat option" where
  "FindClientByWindow s w =
     (case find_client (\<lambda>c. c_window c = w) (clients s) of
        Some i \<Rightarrow> Some i
      | None \<Rightarrow> FindClientByParent s w)"

text \<open>Modelled from the spec: \<^verbatim>\<open>client.c\<close> is missing. Removing a client
  deregisters both its ids (spec, section 4.2).\<close>

definition RemoveClient :: "nat \<Rightarrow> World \<Rightarrow> World" where
  "RemoveClient i s =
     (call (CallRemoveClient (c_window (clients s ! i))) s)
       \<lparr>clients := take i (clients s) @ drop (Suc i) (clients s)\<rparr>"

text \<open>An assignment through the client pointer.\<close>

definition modify_client :: "nat \<Rightarrow> (ClientNode \<Rightarrow> ClientNode) \<Rightarrow> World \<Rightarrow> World" where
  "modify_client i f s = s\<lparr>clients := (clients s)[i := f (clients s ! i)]\<rparr>"

definition set_status :: "32 word \<Rightarrow> ClientNode \<Rightarrow> ClientNode" where
  "set_status b c = c\<lparr>c_state := (c_state c)\<lparr>status := status (c_state c) OR b\<rparr>\<rparr>"

definition clear_status :: "32 word \<Rightarrow> ClientNode \<Rightarrow> ClientNode" where
  "clear_status b c = c\<lparr>c_state := (c_state c)\<lparr>status := status (c_state c) AND NOT b\<rparr>\<rparr>"

definition has_status :: "32 word \<Rightarrow> ClientNode \<Rightarrow> bool" where
  "has_status b c = (status (c_state c) AND b \<noteq> 0)"

definition has_border :: "16 word \<Rightarrow> ClientNode \<Rightarrow> bool" where
  "has_border b c = (border (c_state c) AND b \<noteq> 0)"

text \<open>\<^verbatim>\<open>if(np->controller) (np->controller)(v);\<close>\<close>

definition notify_controller :: "nat \<Rightarrow> int \<Rightarrow> World \<Rightarrow> World" where
  "notify_controller i v s =
     (if c_controller (clients s ! i)
      then call (CallController (c_window (clients s ! i)) v) s else s)"

subsection \<open>Unmap and destroy notifications\<close>

definition HandleUnmapNotify :: "Window \<Rightarrow> World \<Rightarrow> World" where
  "HandleUnmapNotify w s =
     (case FindClientByWindow s w of
        None \<Rightarrow> s
      | Some i \<Rightarrow>
          if c_window (clients s ! i) = w then
            let s1 = notify_controller i 1 s in
            if has_status STAT_MAPPED (clients s1 ! i)
            then call (CallJXUnmapWindow (c_parent (clients s1 ! i)))
                   (modify_client i (clear_status STAT_MAPPED) s1)
            else s1
          else s)"

definition HandleDestroyNotify :: "Window \<Rightarrow> World \<Rightarrow> bool \<times> World" where
  "HandleDestroyNotify w s =
     (case FindClientByWindow s w of
        None \<Rightarrow> (False, s)
      | Some i \<Rightarrow>
          if c_window (clients s ! i) = w then
            (True, RemoveClient i (notify_controller i 1 s))
          else (False, s))"

subsection \<open>Effects of other modules that the handlers rely on\<close>

text \<open>Modelled from the spec: \<^verbatim>\<open>client.c\<close> is missing. A desktop assignment
  sets the client's desktop (spec, section 4.3, change desktop).\<close>

definition SetClientDesktop :: "nat \<Rightarrow> int \<Rightarrow> World \<Rightarrow> World" where
  "SetClientDesktop i d s =
     call (CallSetClientDesktop (c_window (clients s ! i)) d)
       (modify_client i (\<lambda>c. c\<lparr>c_state := (c_state c)\<lparr>desktop := word_of_int d\<rparr>\<rparr>) s)"

text \<open>Modelled from the spec: \<^verbatim>\<open>main.c\<close> is missing. Exit and restart are the
  process-ending commands (spec, section 7): both request shutdown.\<close>

definition Exit :: "World \<Rightarrow> World" where
  "Exit s = (call CallExit s)\<lparr>shouldExit := True\<rparr>"

text \<open>Modelled from the spec: \<^verbatim>\<open>main.c\<close> is missing; see \<open>Exit\<close>.\<close>

definition Restart :: "World \<Rightarrow> World" where
  "Restart s = (call CallRestart s)\<lparr>shouldExit := True\<rparr>"

text \<open>Modelled from the spec: \<^verbatim>\<open>client.c\<close> is missing. Adding a window registers
  the client built for it, or fails when the window is not manageable (spec, section
  4.2); the client built is a parameter.\<close>

definition add_client :: "Env \<Rightarrow> Window \<Rightarrow> World \<Rightarrow> nat option \<times> World" where
  "add_client env w s =
     (let s1 = call (CallAddClientWindow w) s in
      case AddClientWindow env s w of
        None \<Rightarrow> (None, s1)
      | Some c \<Rightarrow> (Some (length (clients s1)), s1\<lparr>clients := clients s1 @ [c]\<rparr>))"

subsection \<open>Configure requests\<close>

text \<open>The insets north, south, east, west of the frame around the content.\<close>

definition border_insets :: "Env \<Rightarrow> ClientNode \<Rightarrow> int \<times> int \<times> int \<times> int" where
  "border_insets env np =
     (if has_border BORDER_OUTLINE np then
        (if has_border BORDER_TITLE np then titleSize env else borderWidth env,
         borderWidth env, borderWidth env, borderWidth env)
      else (0, 0, 0, 0))"

definition cr_changed :: "XConfigureRequestEvent \<Rightarrow> ClientNode \<Rightarrow> bool" where
  "cr_changed e np =
     ((cr_value_mask e AND CWWidth \<noteq> 0 \<and> cr_width e \<noteq> c_width np)
    \<or> (cr_value_mask e AND CWHeight \<noteq> 0 \<and> cr_height e \<noteq> c_height np)
    \<or> (cr_value_mask e AND CWX \<noteq> 0 \<and> cr_x e \<noteq> c_x np)
    \<or> (cr_value_mask e AND CWY \<noteq> 0 \<and> cr_y e \<noteq> c_y np))"

definition cr_update :: "XConfigureRequestEvent \<Rightarrow> ClientNode \<Rightarrow> ClientNode" where
  "cr_update e np =
     np\<lparr>c_width := (if cr_value_mask e AND CWWidth \<noteq> 0 \<and> cr_width e \<noteq> c_width np
                    then cr_width e else c_width np),
        c_height := (if cr_value_mask e AND CWHeight \<noteq> 0 \<and> cr_height e \<noteq> c_height np
                     then cr_height e else c_height np),
        c_x := (if cr_value_mask e AND CWX \<noteq> 0 \<and> cr_x e \<noteq> c_x np
                then cr_x e else c_x np),
        c_y := (if cr_value_mask e AND CWY \<noteq> 0 \<and> cr_y e \<noteq> c_y np
                then cr_y e else c_y np)\<rparr>"

text \<open>The changes sent for the frame, and then for the content.\<close>

definition frame_changes :: "Env \<Rightarrow> ClientNode \<Rightarrow> XWindowChanges" where
  "frame_changes env np =
     (case border_insets env np of (north, south, east, west) \<Rightarrow>
        \<lparr>wc_x = c_x np, wc_y = c_y np,
         wc_width = c_add (c_add (c_width np) east) west,
         wc_height = c_add (c_add (c_height np) north) south,
         wc_border_width = 0, wc_sibling = c_parent np, wc_stack_mode = Above\<rparr>)"

definition content_changes :: "Env \<Rightarrow> ClientNode \<Rightarrow> XWindowChanges" where
  "content_changes env np =
     (case border_insets env np of (north, south, east, west) \<Rightarrow>
        \<lparr>wc_x = west, wc_y = north,
         wc_width = c_width np, wc_height = c_height np,
         wc_border_width = 0, wc_sibling = c_parent np, wc_stack_mode = Above\<rparr>)"

definition passthrough_changes :: "XConfigureRequestEvent \<Rightarrow> XWindowChanges" where
  "passthrough_changes e =
     \<lparr>wc_x = cr_x e, wc_y = cr_y e, wc_width = cr_width e, wc_height = cr_height e,
      wc_border_width = cr_border_width e, wc_sibling = cr_above e,
      wc_stack_mode = cr_detail e\<rparr>"

definition HandleConfigureRequest :: "Env \<Rightarrow> XConfigureRequestEvent \<Rightarrow> World \<Rightarrow> World" where
  "HandleConfigureRequest env e s =
     (case FindClientByWindow s (cr_window e) of
        Some i \<Rightarrow>
          if c_window (clients s ! i) = cr_window e then
            let s1 = notify_controller i 0 s in
            if \<not> cr_changed e (clients s1 ! i) then s1
            else
              let s2 = modify_client i (cr_update e) s1;
                  np = clients s2 ! i;
                  s3 = call (CallJXConfigureWindow (c_parent np) (cr_value_mask e)
                               (frame_changes env np)) s2
              in call (CallJXConfigureWindow (c_window np) (cr_value_mask e)
                         (content_changes env np)) s3
          else call (CallJXConfigureWindow (cr_window e) (cr_value_mask e)
                       (passthrough_changes e)) s
      | None \<Rightarrow> call (CallJXConfigureWindow (cr_window e) (cr_value_mask e)
                       (passthrough_changes e)) s)"

subsection \<open>The display's view of the window sizes\<close>

text \<open>What the display does with a configure call: the fields named in the mask are
  set, the others stay. Only position and size are kept.\<close>

record WinGeom =
  g_x :: int
  g_y :: int
  g_width :: int
  g_height :: int

type_synonym XServer = "Window \<Rightarrow> WinGeom"

definition XConfigureWindow :: "Window \<Rightarrow> nat \<Rightarrow> XWindowChanges \<Rightarrow> XServer \<Rightarrow> XServer" where
  "XConfigureWindow w m wc srv =
     srv(w := \<lparr>g_x = (if m AND CWX \<noteq> 0 then wc_x wc else g_x (srv w)),
              g_y = (if m AND CWY \<noteq> 0 then wc_y wc else g_y (srv w)),
              g_width = (if m AND CWWidth \<noteq> 0 then wc_width wc else g_width (srv w)),
              g_height = (if m AND CWHeight \<noteq> 0 then wc_height wc else g_height (srv w))\<rparr>)"

text \<open>The states of the display after each configure call of a list of calls.\<close>

fun x_states :: "Call list \<Rightarrow> XServer \<Rightarrow> XServer list" where
  "x_states [] srv = []"
| "x_states (CallJXConfigureWindow w m wc # cs) srv =
     XConfigureWindow w m wc srv # x_states cs (XConfigureWindow w m wc srv)"
| "x_states (c # cs) srv = x_states cs srv"

text \<open>The content window is no larger than the decoration window.\<close>

definition content_fits :: "Window \<Rightarrow> Window \<Rightarrow> XServer \<Rightarrow> bool" where
  "content_fits content frame srv =
     (g_width (srv content) \<le> g_width (srv frame)
      \<and> g_height (srv content) \<le> g_height (srv frame))"

subsection \<open>Map requests\<close>

definition HandleMapRequest :: "Env \<Rightarrow> Window \<Rightarrow> World \<Rightarrow> World" where
  "HandleMapRequest env w s =
     call CallRestackClients
       (case FindClientByWindow s w of
          None \<Rightarrow>
            (let s1 = call CallJXGrabServer (call CallJXSync s);
                 (r, s2) = add_client env w s1;
                 s3 = (case r of
                         Some i \<Rightarrow>
                           if focusModel env = FOCUS_CLICK
                           then call (CallFocusClient (c_window (clients s2 ! i))) s2
                           else s2
                       | None \<Rightarrow> call (CallJXMapWindow w) s2)
             in call CallJXSync (call CallJXUngrabServer s3))
        | Some i \<Rightarrow>
            if \<not> has_status STAT_MAPPED (clients s ! i) then
              let s1 = modify_client i
                         (clear_status STAT_WITHDRAWN \<circ> clear_status STAT_MINIMIZED
                            \<circ> set_status STAT_MAPPED) s;
                  np = clients s1 ! i;
                  s2 = call (CallRaiseClient (c_window np))
                         (call (CallJXMapWindow (c_parent np))
                            (call (CallJXMapWindow (c_window np)) s1));
                  s3 = (if focusModel env = FOCUS_CLICK
                        then call (CallFocusClient (c_window np)) s2 else s2)
              in call CallUpdatePager (call CallUpdateTaskBar s3)
            else s)"

subsection \<open>Expose, property and colormap notifications\<close>

definition HandleExpose :: "XExposeEvent \<Rightarrow> World \<Rightarrow> bool \<times> World" where
  "HandleExpose e s =
     (if ex_count e \<noteq> 0 then (True, s)
      else case FindClientByWindow s (ex_window e) of
        Some i \<Rightarrow>
          let np = clients s ! i in
          if ex_window e = c_parent np then (True, call (CallDrawBorder (c_window np)) s)
          else if ex_window e = c_window np \<and> has_status STAT_WMDIALOG np then (False, s)
          else (True, s)
      | None \<Rightarrow> (False, s))"

text \<open>The switch on the atom of a property event of a client: the state after reading
  the property, and whether the border and the lists are to be redrawn.\<close>

definition read_property :: "Env \<Rightarrow> Atom \<Rightarrow> Window \<Rightarrow> World \<Rightarrow> bool \<times> World" where
  "read_property env a w s =
     (if a = XA_WM_NAME then (True, call (CallReadWMName w) s)
      else if a = XA_WM_NORMAL_HINTS then (True, call (CallReadWMNormalHints w) s)
      else if a = XA_WM_HINTS \<or> a = XA_WM_ICON_NAME \<or> a = XA_WM_CLIENT_MACHINE
        then (False, s)
      else if a = atoms env ATOM_WM_COLORMAP_WINDOWS
        then (False, call (CallUpdateClientColormap w) (call (CallReadWMColormaps w) s))
      else if a = atoms env ATOM_NET_WM_ICON then (True, call (CallLoadIcon w) s)
      else if a = atoms env ATOM_NET_WM_NAME then (True, call (CallReadWMName w) s)
      else (False, s))"

definition HandlePropertyNotify :: "Env \<Rightarrow> XPropertyEvent \<Rightarrow> World \<Rightarrow> bool \<times> World" where
  "HandlePropertyNotify env e s =
     (case FindClientByWindow s (pr_window e) of
        Some i \<Rightarrow>
          let np = clients s ! i;
              (changed, s1) = read_property env (pr_atom e) (c_window np) s;
              s2 = (if changed
                    then call CallUpdatePager
                           (call CallUpdateTaskBar (call (CallDrawBorder (c_window np)) s1))
                    else s1)
          in (\<not> has_status STAT_WMDIALOG (clients s2 ! i), s2)
      | None \<Rightarrow>
          if pr_window e = rootWindow env then
            (if pr_atom e = atoms env ATOM_JWM_RESTART then (True, Restart s)
             else if pr_atom e = atoms env ATOM_JWM_EXIT then (True, Exit s)
             else (True, s))
          else (True, s))"

definition HandleColormapChange :: "XColormapEvent \<Rightarrow> World \<Rightarrow> World" where
  "HandleColormapChange e s =
     (if co_new e = XTrue then
        (case FindClientByWindow s (co_window e) of
           Some i \<Rightarrow>
             call (CallUpdateClientColormap (c_window (clients s ! i)))
               (modify_client i (\<lambda>c. c\<lparr>c_cmap := co_colormap e\<rparr>) s)
         | None \<Rightarrow> s)
      else s)"

text \<open>Without \<^verbatim>\<open>USE_SHAPE\<close> the body is empty.\<close>

definition HandleConfigureNotify :: "Window \<Rightarrow> World \<Rightarrow> World" where
  "HandleConfigureNotify w s = s"

subsection \<open>Client messages\<close>

text \<open>The loop over the two sub-actions of a multi-flag state message: which of
  stick, maximize and shade the value \<open>v\<close> of one slot asks for.\<close>

datatype StateAction = ActionNone | ActionStick | ActionMaximize | ActionShade

definition state_action :: "Env \<Rightarrow> int \<Rightarrow> StateAction" where
  "state_action env v =
     (if v = int (atoms env ATOM_NET_WM_STATE_STICKY) then ActionStick
      else if v = int (atoms env ATOM_NET_WM_STATE_MAXIMIZED_VERT) then ActionMaximize
      else if v = int (atoms env ATOM_NET_WM_STATE_MAXIMIZED_HORZ) then ActionMaximize
      else if v = int (atoms env ATOM_NET_WM_STATE_SHADED) then ActionShade
      else ActionNone)"

definition do_when :: "bool \<Rightarrow> (World \<Rightarrow> World) \<Rightarrow> World \<Rightarrow> World" where
  "do_when b f s = (if b then f s else s)"

definition net_wm_state :: "Env \<Rightarrow> XClientMessageEvent \<Rightarrow> nat \<Rightarrow> World \<Rightarrow> World" where
  "net_wm_state env e i s =
     (let a1 = state_action env (cm_data_l e 1);
          a2 = state_action env (cm_data_l e 2);
          actionStick = (a1 = ActionStick \<or> a2 = ActionStick);
          actionMaximize = (a1 = ActionMaximize \<or> a2 = ActionMaximize);
          actionShade = (a1 = ActionShade \<or> a2 = ActionShade);
          np = clients s ! i;
          w = c_window np
      in if cm_data_l e 0 = 0 then
           do_when actionShade (call (CallUnshadeClient w))
             (do_when (actionMaximize \<and> has_status STAT_MAXIMIZED np) (call (CallMaximizeClient w))
               (do_when actionStick (call (CallSetClientSticky w 0)) s))
         else if cm_data_l e 0 = 1 then
           do_when actionShade (call (CallShadeClient w))
             (do_when (actionMaximize \<and> \<not> has_status STAT_MAXIMIZED np) (call (CallMaximizeClient w))
               (do_when actionStick (call (CallSetClientSticky w 1)) s))
         else if cm_data_l e 0 = 2 then
           do_when actionShade
               (call (if has_status STAT_SHADED np then CallUnshadeClient w
                      else CallShadeClient w))
             (do_when actionMaximize (call (CallMaximizeClient w))
               (do_when actionStick
                  (call (CallSetClientSticky w (if has_status STAT_STICKY np then 0 else 1)))
                  s))
         else call CallDebug s)"

definition HandleClientMessage :: "Env \<Rightarrow> XClientMessageEvent \<Rightarrow> World \<Rightarrow> World" where
  "HandleClientMessage env e s =
     (case FindClientByWindow s (cm_window e) of
        None \<Rightarrow> s
      | Some i \<Rightarrow>
          let np = clients s ! i; w = c_window np; t = cm_message_type e in
          if t = atoms env ATOM_WIN_STATE then
            (let mask = cm_data_l e 0; flags = cm_data_l e 1;
                 s1 = do_when (mask AND WIN_STATE_STICKY \<noteq> 0)
                        (call (CallSetClientSticky w
                                 (if flags AND WIN_STATE_STICKY \<noteq> 0 then 1 else 0))) s
             in do_when (mask AND WIN_STATE_HIDDEN \<noteq> 0)
                  (\<lambda>s. call CallUpdatePager (call CallUpdateTaskBar
                          (modify_client i
                             (if flags AND WIN_STATE_HIDDEN \<noteq> 0 then set_status STAT_NOLIST
                              else clear_status STAT_NOLIST) s))) s1)
          else if t = atoms env ATOM_WIN_LAYER then
            call (CallSetClientLayer w (cm_data_l e 0)) s
          else if t = atoms env ATOM_WM_CHANGE_STATE then
            (let s1 = notify_controller i 0 s; v = cm_data_l e 0 in
             if v = WithdrawnState then call (CallSetClientWithdrawn w 1) s1
             else if v = IconicState then call (CallMinimizeClient w) s1
             else if v = NormalState then call (CallRestoreClient w) s1
             else s1)
          else if t = atoms env ATOM_NET_ACTIVE_WINDOW then
            call (CallFocusClient w) (call (CallRestoreClient w) s)
          else if t = atoms env ATOM_NET_WM_DESKTOP then
            (if cm_data_l e 0 = - 1 then call (CallSetClientSticky w 1) s
             else
               let s1 = notify_controller i 0 s in
               if cm_data_l e 0 \<ge> 0 \<and> cm_data_l e 0 < desktopCount env
               then SetClientDesktop i (cm_data_l e 0)
                      (modify_client i (clear_status STAT_STICKY) s1)
               else s1)
          else if t = atoms env ATOM_NET_CLOSE_WINDOW then
            call (CallDeleteClient w) s
          else if t = atoms env ATOM_NET_WM_STATE then
            net_wm_state env e i s
          else call CallDebug s)"

subsection \<open>Key presses\<close>

definition key_target :: "Env \<Rightarrow> XKeyEvent \<Rightarrow> World \<Rightarrow> nat option" where
  "key_target env e s =
     (if focusModel env = FOCUS_CLICK then FindClientByWindow s (k_subwindow e)
      else GetActiveClient env s)"

text \<open>\<^verbatim>\<open>if(np) { ... }\<close> around a call that names the client.\<close>

definition with_client :: "nat option \<Rightarrow> (ClientNode \<Rightarrow> Call) \<Rightarrow> World \<Rightarrow> World" where
  "with_client np f s =
     (case np of None \<Rightarrow> s | Some i \<Rightarrow> call (f (clients s ! i)) s)"

definition HandleKeyPress :: "Env \<Rightarrow> XKeyEvent \<Rightarrow> World \<Rightarrow> World" where
  "HandleKeyPress env e s =
     (let key = GetKey env e;
          np = key_target env e s;
          cmd = key AND 0xFF
      in if cmd = KEY_EXEC then call CallRunKeyCommand s
         else if cmd = KEY_DESKTOP then
           (if drop_bit 8 key \<noteq> 0 then call (CallChangeDesktop (uint (drop_bit 8 key) - 1)) s
            else call CallNextDesktop s)
         else if cmd = KEY_NEXT then call CallFocusNext s
         else if cmd = KEY_CLOSE then with_client np (\<lambda>c. CallDeleteClient (c_window c)) s
         else if cmd = KEY_SHADE then
           with_client np (\<lambda>c. if has_status STAT_SHADED c then CallUnshadeClient (c_window c)
                                else CallShadeClient (c_window c)) s
         else if cmd = KEY_MOVE then with_client np (\<lambda>c. CallMoveClientKeyboard (c_window c)) s
         else if cmd = KEY_RESIZE then
           with_client np (\<lambda>c. CallResizeClientKeyboard (c_window c)) s
         else if cmd = KEY_MIN then with_client np (\<lambda>c. CallMinimizeClient (c_window c)) s
         else if cmd = KEY_MAX then with_client np (\<lambda>c. CallMaximizeClient (c_window c)) s
         else if cmd = KEY_ROOT then call (CallShowRootMenu 0 0) s
         else if cmd = KEY_WIN then
           with_client np (\<lambda>c. CallShowWindowMenu (c_window c) (c_x c) (c_y c)) s
         else if cmd = KEY_RESTART then Restart s
         else if cmd = KEY_EXIT then Exit s
         else s)"

subsection \<open>Button events on the frame\<close>

text \<open>The test of the double-click detector, on the function-static variables. The
  difference of the two timestamps is unsigned; \<^verbatim>\<open>abs\<close> takes it as an \<^verbatim>\<open>int\<close>.\<close>

definition is_double_click :: "Env \<Rightarrow> XButtonEvent \<Rightarrow> World \<Rightarrow> bool" where
  "is_double_click env e s =
     (doubleClickActive s
      \<and> c_abs (sint (b_time e - lastClickTime s)) \<le> doubleClickSpeed env
      \<and> c_abs (c_sub (b_x e) (lastX s)) \<le> doubleClickDelta env
      \<and> c_abs (c_sub (b_y e) (lastY s)) \<le> doubleClickDelta env)"

definition DispatchBorderButtonEvent :: "Env \<Rightarrow> XButtonEvent \<Rightarrow> nat \<Rightarrow> World \<Rightarrow> World" where
  "DispatchBorderButtonEvent env e i s =
     (let np = clients s ! i; w = c_window np in
      if \<not> has_border BORDER_OUTLINE np then s
      else
        let action = GetBorderActionType env np (b_x e) (b_y e);
            zone = action AND 0x0F
        in if zone = BA_RESIZE then
             do_when (b_type e = ButtonPress)
               (call (CallResizeClient w action (b_x e) (b_y e))) s
           else if zone = BA_MOVE then
             (if b_type e = ButtonPress then
                (if is_double_click env e s then
                   (call (if has_status STAT_SHADED np then CallUnshadeClient w
                          else CallShadeClient w) s)\<lparr>doubleClickActive := False\<rparr>
                 else if MoveClient env s np (b_x e) (b_y e) then
                   (call (CallMoveClient w (b_x e) (b_y e)) s)\<lparr>doubleClickActive := False\<rparr>
                 else
                   (call (CallMoveClient w (b_x e) (b_y e)) s)
                     \<lparr>lastClickTime := b_time e, lastX := b_x e, lastY := b_y e,
                      doubleClickActive := True\<rparr>)
              else s)
           else if zone = BA_CLOSE then
             do_when (b_type e = ButtonRelease) (call (CallDeleteClient w)) s
           else if zone = BA_MAXIMIZE then
             do_when (b_type e = ButtonRelease) (call (CallMaximizeClient w)) s
           else if zone = BA_MINIMIZE then
             do_when (b_type e = ButtonRelease) (call (CallMinimizeClient w)) s
           else s)"

definition window_menu_pos :: "Env \<Rightarrow> XButtonEvent \<Rightarrow> ClientNode \<Rightarrow> int \<times> int" where
  "window_menu_pos env e np =
     (let x = c_add (b_x e) (c_x np); y = c_add (b_y e) (c_y np) in
      if has_border BORDER_OUTLINE np then
        (c_sub x (borderWidth env),
         if has_border BORDER_TITLE np then c_sub y (titleSize env)
         else c_sub y (borderWidth env))
      else (x, if has_border BORDER_TITLE np then c_sub y (titleSize env) else y))"

definition HandleButtonEvent :: "Env \<Rightarrow> XButtonEvent \<Rightarrow> World \<Rightarrow> World" where
  "HandleButtonEvent env e s =
     call CallUpdatePager
       (case FindClientByParent s (b_window e) of
          Some i \<Rightarrow>
            let np = clients s ! i; w = c_window np;
                s1 = do_when (focusModel env = FOCUS_CLICK) (call (CallFocusClient w))
                       (call (CallRaiseClient w) s)
            in if b_button e = Button1 then DispatchBorderButtonEvent env e i s1
               else if b_button e = Button2 then call (CallMoveClient w (b_x e) (b_y e)) s1
               else if b_button e = Button3 then
                 (case window_menu_pos env e np of (x, y) \<Rightarrow> call (CallShowWindowMenu w x y) s1)
               else s1
        | None \<Rightarrow>
            if b_window e = rootWindow env then
              do_when (showMenuOnRoot s) (call (CallShowRootMenu (b_x e) (b_y e))) s
            else
              (case FindClientByWindow s (b_window e) of
                 Some i \<Rightarrow>
                   let w = c_window (clients s ! i);
                       s1 = (if b_button e = Button1 \<or> b_button e = Button2
                                \<or> b_button e = Button3
                             then do_when (focusModel env = FOCUS_CLICK) (call (CallFocusClient w))
                                    (call (CallRaiseClient w) s)
                             else s)
                   in call CallJXAllowEvents s1
               | None \<Rightarrow> s))"

subsection \<open>The dispatch loop\<close>

text \<open>The switch of \<^verbatim>\<open>WaitForEvent\<close> on the type of the event: whether the core
  handled it, and the state after.\<close>

definition core_dispatch :: "Env \<Rightarrow> XEvent \<Rightarrow> World \<Rightarrow> bool \<times> World" where
  "core_dispatch env ev s =
     (case ev of
        EvConfigureRequest e \<Rightarrow> (True, HandleConfigureRequest env e s)
      | EvMapRequest w \<Rightarrow> (True, HandleMapRequest env w s)
      | EvPropertyNotify e \<Rightarrow> HandlePropertyNotify env e s
      | EvClientMessage e \<Rightarrow> (True, HandleClientMessage env e s)
      | EvUnmapNotify w \<Rightarrow> (True, HandleUnmapNotify w s)
      | EvExpose e \<Rightarrow> HandleExpose e s
      | EvColormapNotify e \<Rightarrow> (True, HandleColormapChange e s)
      | EvDestroyNotify w \<Rightarrow> HandleDestroyNotify w s
      | EvConfigureNotify w \<Rightarrow> (True, HandleConfigureNotify w s)
      | EvCreateNotify \<Rightarrow> (True, s)
      | EvMapNotify \<Rightarrow> (True, s)
      | EvNoExpose \<Rightarrow> (True, s)
      | EvReparentNotify \<Rightarrow> (True, s)
      | EvGraphicsExpose \<Rightarrow> (True, s)
      | EvButton e \<Rightarrow> (False, s)
      | EvKeyPress e \<Rightarrow> (False, s)
      | EvOther n \<Rightarrow> (False, s))"

text \<open>The collaborators after the switch: tray, dialog and swallow are asked while the
  event is unhandled, the popup is asked always.\<close>

definition offer :: "(World \<Rightarrow> XEvent \<Rightarrow> bool) \<Rightarrow> Call \<Rightarrow> XEvent \<Rightarrow> bool \<times> World \<Rightarrow> bool \<times> World" where
  "offer process c ev hs =
     (case hs of (handled, s) \<Rightarrow>
        if \<not> handled then (process s ev, call c s) else (handled, s))"

definition collaborators :: "Env \<Rightarrow> XEvent \<Rightarrow> bool \<times> World \<Rightarrow> bool \<times> World" where
  "collaborators env ev hs =
     (case offer (ProcessSwallowEvent env) CallProcessSwallowEvent ev
             (offer (ProcessDialogEvent env) CallProcessDialogEvent ev
                (offer (ProcessTrayEvent env) CallProcessTrayEvent ev hs)) of
        (handled, s) \<Rightarrow> (handled \<or> ProcessPopupEvent env s ev, call CallProcessPopupEvent s))"

text \<open>One pass through the body of the do-while loop, for the next event \<open>ev\<close>.\<close>

definition loop_body :: "Env \<Rightarrow> XEvent \<Rightarrow> World \<Rightarrow> bool \<times> World" where
  "loop_body env ev s = collaborators env ev (core_dispatch env ev (call CallSignalTaskbar s))"

text \<open>The loop itself, on the events the display will deliver, in their order. With none
  left the inner loop waits for ever: the result is \<open>None\<close>. Otherwise the result is
  the event in the caller's buffer at the return, the events not yet read, and the
  state. The idle ticks of the inner loop, one for each second without an event, are
  not part of the model.\<close>

fun WaitForEvent :: "Env \<Rightarrow> XEvent list \<Rightarrow> World \<Rightarrow> (XEvent \<times> XEvent list \<times> World) option" where
  "WaitForEvent env [] s = None"
| "WaitForEvent env (ev # q) s =
     (case loop_body env ev s of (handled, s') \<Rightarrow>
        if handled \<and> \<not> shouldExit s' then WaitForEvent env q s' else Some (ev, q, s'))"

subsection \<open>Notions used to state the properties\<close>

text \<open>The calls a handler added to the trace.\<close>

definition new_calls :: "World \<Rightarrow> World \<Rightarrow> Call list" where
  "new_calls s s' = drop (length (trace s)) (trace s')"

definition is_controller_call :: "Call \<Rightarrow> bool" where
  "is_controller_call c = (case c of CallController w v \<Rightarrow> True | _ \<Rightarrow> False)"

text \<open>A value of the C type \<^verbatim>\<open>int\<close>; and: adding the insets to the content size of
  a client does not overflow.\<close>

definition c_int :: "int \<Rightarrow> bool" where
  "c_int v \<longleftrightarrow> - (2 ^ 31) \<le> v \<and> v < 2 ^ 31"

definition frame_in_range :: "Env \<Rightarrow> ClientNode \<Rightarrow> bool" where
  "frame_in_range env np =
     (case border_insets env np of (north, south, east, west) \<Rightarrow>
        c_int (c_width np + east) \<and> c_int (c_width np + east + west)
        \<and> c_int (c_height np + north) \<and> c_int (c_height np + north + south))"

text \<open>No window id is shared between two clients of the registry (spec, section 3).\<close>

definition shares_id :: "ClientNode \<Rightarrow> ClientNode \<Rightarrow> bool" where
  "shares_id c d =
     (c_window c = c_window d \<or> c_window c = c_parent d
      \<or> c_parent c = c_window d \<or> c_parent c = c_parent d)"

fun ids_unique :: "ClientNode list \<Rightarrow> bool" where
  "ids_unique [] = True"
| "ids_unique (c # cs) = (list_all (\<lambda>d. \<not> shares_id c d) cs \<and> ids_unique cs)"

text \<open>The loop goes on after each event of a list; and the state it is then in.\<close>

fun all_continue :: "Env \<Rightarrow> XEvent list \<Rightarrow> World \<Rightarrow> bool" where
  "all_continue env [] s = True"
| "all_continue env (ev # q) s =
     (fst (loop_body env ev s) \<and> \<not> shouldExit (snd (loop_body env ev s))
      \<and> all_continue env q (snd (loop_body env ev s)))"

fun run_events :: "Env \<Rightarrow> XEvent list \<Rightarrow> World \<Rightarrow> World" where
  "run_events env [] s = s"
| "run_events env (ev # q) s = run_events env q (snd (loop_body env ev s))"

subsection \<open>A concrete configuration, for the examples\<close>

fun example_atoms :: "AtomType \<Rightarrow> Atom" where
  "example_atoms ATOM_WM_CHANGE_STATE = 100"
| "example_atoms ATOM_WM_COLORMAP_WINDOWS = 101"
| "example_atoms ATOM_WIN_STATE = 102"
| "example_atoms ATOM_WIN_LAYER = 103"
| "example_atoms ATOM_NET_ACTIVE_WINDOW = 104"
| "example_atoms ATOM_NET_WM_DESKTOP = 105"
| "example_atoms ATOM_NET_CLOSE_WINDOW = 106"
| "example_atoms ATOM_NET_WM_STATE = 107"
| "example_atoms ATOM_NET_WM_STATE_STICKY = 108"
| "example_atoms ATOM_NET_WM_STATE_MAXIMIZED_VERT = 109"
| "example_atoms ATOM_NET_WM_STATE_MAXIMIZED_HORZ = 110"
| "example_atoms ATOM_NET_WM_STATE_SHADED = 111"
| "example_atoms ATOM_NET_WM_NAME = 112"
| "example_atoms ATOM_NET_WM_ICON = 113"
| "example_atoms ATOM_JWM_RESTART = 114"
| "example_atoms ATOM_JWM_EXIT = 115"

text \<open>Sloppy focus, four desktops, a border of 4 and a title bar of 20 pixels, a
  double-click window of 400 ms and 2 pixels; no window has the focus, every pointer
  position is in the title bar, a press never becomes a move, and no collaborator
  takes an event.\<close>

definition example_env :: Env where
  "example_env =
     \<lparr>focusModel = FOCUS_SLOPPY, desktopCount = 4, borderWidth = 4, titleSize = 20,
      doubleClickSpeed = 400, doubleClickDelta = 2, rootWindow = 2,
      atoms = example_atoms,
      GetKey = (\<lambda>e. KEY_CLOSE),
      GetBorderActionType = (\<lambda>np x y. BA_MOVE),
      GetActiveClient = (\<lambda>s. None),
      MoveClient = (\<lambda>s np x y. False),
      AddClientWindow = (\<lambda>s w. None),
      ProcessTrayEvent = (\<lambda>s ev. False),
      ProcessDialogEvent = (\<lambda>s ev. False),
      ProcessSwallowEvent = (\<lambda>s ev. False),
      ProcessPopupEvent = (\<lambda>s ev. False)\<rparr>"

text \<open>A mapped client of 100 by 100 pixels with outline and title bar, content window
  10 in frame 11, with a controller installed; and the same client as a dialog.\<close>

definition example_client :: ClientNode where
  "example_client =
     \<lparr>c_window = 10, c_parent = 11, c_x = 0, c_y = 0, c_width = 100, c_height = 100,
      c_cmap = 0,
      c_state = \<lparr>status = 2, border = 3, layer = 2, defaultLayer = 2, desktop = 0,
                 opacity = 0\<rparr>,
      c_borderAction = 0, c_controller = True\<rparr>"

definition example_dialog :: ClientNode where
  "example_dialog =
     example_client\<lparr>c_state := (c_state example_client)\<lparr>status := 1026\<rparr>\<rparr>"

definition example_world :: World where
  "example_world =
     \<lparr>clients = [example_client], shouldExit = False, showMenuOnRoot = True,
      lastClickTime = 0, lastX = 0, lastY = 0, doubleClickActive = False, trace = []\<rparr>"

text \<open>The display when the frame of the example client is around its content.\<close>

definition example_server :: XServer where
  "example_server =
     (\<lambda>w. if w = 11 then \<lparr>g_x = 0, g_y = 0, g_width = 108, g_height = 124\<rparr>
          else \<lparr>g_x = 4, g_y = 20, g_width = 100, g_height = 100\<rparr>)"

text \<open>A request to shrink window 10 to 50 by 50 pixels, and one to grow it to 200 by
  150.\<close>

definition example_request :: "int \<Rightarrow> int \<Rightarrow> XConfigureRequestEvent" where
  "example_request w h =
     \<lparr>cr_window = 10, cr_x = 0, cr_y = 0, cr_width = w, cr_height = h,
      cr_border_width = 0, cr_above = 0, cr_detail = 0, cr_value_mask = 12\<rparr>"

text \<open>A press of button 1 on frame 11 at a position and a time.\<close>

definition example_press :: "int \<Rightarrow> int \<Rightarrow> Time \<Rightarrow> XButtonEvent" where
  "example_press x y t =
     \<lparr>b_type = 4, b_window = 11, b_button = 1, b_x = x, b_y = y, b_time = t\<rparr>"

text \<open>The example client as a dialog, and without outline and title bar.\<close>

definition dialog_world :: World where
  "dialog_world = example_world\<lparr>clients := [example_dialog]\<rparr>"

definition bare_world :: World where
  "bare_world =
     example_world\<lparr>clients := [example_client\<lparr>c_state := (c_state example_client)\<lparr>border := 0\<rparr>\<rparr>]\<rparr>"

text \<open>The release of button 1 after the example press.\<close>

definition example_release :: XButtonEvent where
  "example_release = (example_press 10 10 1000)\<lparr>b_type := 5\<rparr>"

text \<open>The example configuration with every pointer position in the zone \<open>a\<close>.\<close>

definition zone_env :: "BorderActionType \<Rightarrow> Env" where
  "zone_env a = example_env\<lparr>GetBorderActionType := (\<lambda>np x y. a)\<rparr>"

text \<open>A desktop-assignment message for window 10 with the index \<open>d\<close>.\<close>

definition desktop_message :: "int \<Rightarrow> XClientMessageEvent" where
  "desktop_message d =
     \<lparr>cm_window = 10, cm_message_type = 105, cm_data_l = (\<lambda>n. if n = 0 then d else 0)\<rparr>"

section \<open>Properties\<close>

subsection \<open>Basic facts\<close>

lemma clients_call [simp]: "clients (call c s) = clients s"
  by (simp add: call_def)

lemma trace_call [simp]: "trace (call c s) = trace s @ [c]"
  by (simp add: call_def)

lemma find_client_Some:
  "find_client P cs = Some i \<Longrightarrow> i < length cs \<and> P (cs ! i)"
  by (induction cs arbitrary: i) (auto split: if_splits)

lemma find_client_None: "find_client P cs = None \<longleftrightarrow> (\<forall>c \<in> set cs. \<not> P c)"
  by (induction cs) auto

lemma FindClientByWindow_bound:
  "FindClientByWindow s w = Some i \<Longrightarrow> i < length (clients s)"
  by (auto simp: FindClientByWindow_def FindClientByParent_def
      split: option.splits dest: find_client_Some)

lemma ids_unique_nth:
  "ids_unique cs \<Longrightarrow> j < length cs \<Longrightarrow> k < length cs \<Longrightarrow> j \<noteq> k
   \<Longrightarrow> \<not> shares_id (cs ! j) (cs ! k)"
proof (induction cs arbitrary: j k)
  case Nil
  then show ?case by simp
next
  case (Cons c cs)
  from Cons.prems have all: "\<forall>d \<in> set cs. \<not> shares_id c d" and rest: "ids_unique cs"
    by (simp_all add: list_all_iff)
  show ?case
  proof (cases j)
    case 0
    with Cons.prems obtain k' where "k = Suc k'" and "k' < length cs"
      by (cases k) auto
    with 0 all show ?thesis by simp
  next
    case (Suc j')
    show ?thesis
    proof (cases k)
      case 0
      from Suc Cons.prems have "cs ! j' \<in> set cs" by simp
      with all have "\<not> shares_id c (cs ! j')" by blast
      then show ?thesis using 0 Suc by (auto simp: shares_id_def)
    next
      case (Suc k')
      with \<open>j = Suc j'\<close> Cons.prems Cons.IH [OF rest, of j' k'] show ?thesis by simp
    qed
  qed
qed

lemma removed_ids_forgotten:
  assumes "ids_unique cs" and "i < length cs"
    and "w = c_window (cs ! i) \<or> w = c_parent (cs ! i)"
  shows "find_client (\<lambda>c. c_window c = w) (take i cs @ drop (Suc i) cs) = None
       \<and> find_client (\<lambda>c. c_parent c = w) (take i cs @ drop (Suc i) cs) = None"
proof -
  have other: "\<not> shares_id (cs ! i) d" if member: "d \<in> set (take i cs @ drop (Suc i) cs)" for d
  proof -
    from member consider "d \<in> set (take i cs)" | "d \<in> set (drop (Suc i) cs)"
      by auto
    then show ?thesis
    proof cases
      case 1
      then obtain k where "k < i" and "d = cs ! k"
        by (auto simp: in_set_conv_nth)
      with assms(1,2) show ?thesis by (simp add: ids_unique_nth)
    next
      case 2
      then obtain k where "k < length cs - Suc i" and "d = cs ! (Suc i + k)"
        by (auto simp: in_set_conv_nth)
      with assms(1,2) show ?thesis by (simp add: ids_unique_nth)
    qed
  qed
  have "c_window d \<noteq> w \<and> c_parent d \<noteq> w"
    if member: "d \<in> set (take i cs @ drop (Suc i) cs)" for d
    using other [OF member] assms(3) by (auto simp: shares_id_def)
  then have "\<forall>d \<in> set (take i cs @ drop (Suc i) cs). c_window d \<noteq> w \<and> c_parent d \<noteq> w"
    by blast
  then show ?thesis
    unfolding find_client_None by blast
qed

lemma clients_notify_controller [simp]: "clients (notify_controller i v s) = clients s"
  by (simp add: notify_controller_def)

lemma sticky_cleared: "\<not> has_status b (clear_status b c)"
  by (simp add: has_status_def clear_status_def and.assoc)

lemma new_calls_notify_controller:
  "new_calls s (notify_controller i v s)
     = (if c_controller (clients s ! i) then [CallController (c_window (clients s ! i)) v] else [])"
  by (simp add: new_calls_def notify_controller_def)

lemma clients_read_property: "clients (snd (read_property env a w s)) = clients s"
  by (simp add: read_property_def)

lemmas zone_codes = BA_NONE_def BA_RESIZE_def BA_MOVE_def BA_CLOSE_def BA_MAXIMIZE_def
  BA_MINIMIZE_def

lemmas key_codes = KEY_CLOSE_def KEY_SHADE_def KEY_MOVE_def KEY_RESIZE_def KEY_MIN_def
  KEY_MAX_def KEY_WIN_def KEY_EXEC_def KEY_DESKTOP_def KEY_NEXT_def KEY_ROOT_def
  KEY_RESTART_def KEY_EXIT_def

subsection \<open>The dispatch loop\<close>

lemma WaitForEvent_Cons:
  "WaitForEvent env (e # q) s =
     (if fst (loop_body env e s) \<and> \<not> shouldExit (snd (loop_body env e s))
      then WaitForEvent env q (snd (loop_body env e s))
      else Some (e, q, snd (loop_body env e s)))"
  by (simp add: case_prod_unfold)

lemma WaitForEvent_stops:
  assumes "all_continue env pre s"
    and "snd (loop_body env ev (run_events env pre s)) = s'"
    and "\<not> fst (loop_body env ev (run_events env pre s)) \<or> shouldExit s'"
  shows "WaitForEvent env (pre @ ev # rest) s = Some (ev, rest, s')"
  using assms
proof (induction pre arbitrary: s)
  case Nil
  then show ?case
    unfolding append_Nil WaitForEvent_Cons by auto
next
  case (Cons e pre)
  from Cons.prems(1) have go: "fst (loop_body env e s)" "\<not> shouldExit (snd (loop_body env e s))"
    and rest: "all_continue env pre (snd (loop_body env e s))"
    by simp_all
  have "WaitForEvent env ((e # pre) @ ev # rest) s
      = WaitForEvent env (pre @ ev # rest) (snd (loop_body env e s))"
    unfolding append_Cons WaitForEvent_Cons using go by simp
  also have "\<dots> = Some (ev, rest, s')"
    using rest Cons.prems(2,3) by (intro Cons.IH) simp_all
  finally show ?case .
qed

lemma WaitForEvent_stopped:
  assumes "WaitForEvent env q s = Some (ev, rest, s')"
  shows "\<exists>pre. q = pre @ ev # rest \<and> all_continue env pre s
        \<and> snd (loop_body env ev (run_events env pre s)) = s'
        \<and> (\<not> fst (loop_body env ev (run_events env pre s)) \<or> shouldExit s')"
  using assms
proof (induction q arbitrary: s)
  case Nil
  then show ?case by simp
next
  case (Cons e q)
  let ?t = "snd (loop_body env e s)"
  show ?case
  proof (cases "fst (loop_body env e s) \<and> \<not> shouldExit ?t")
    case True
    with Cons.prems have "WaitForEvent env q ?t = Some (ev, rest, s')"
      unfolding WaitForEvent_Cons by simp
    from Cons.IH [OF this] obtain pre where pre: "q = pre @ ev # rest"
      "all_continue env pre ?t"
      "snd (loop_body env ev (run_events env pre ?t)) = s'"
      "\<not> fst (loop_body env ev (run_events env pre ?t)) \<or> shouldExit s'"
      by (elim exE conjE)
    have "e # q = (e # pre) @ ev # rest"
      using pre(1) by simp
    moreover have "all_continue env (e # pre) s"
      using True pre(2) by simp
    moreover have "snd (loop_body env ev (run_events env (e # pre) s)) = s'"
      using pre(3) by simp
    moreover have "\<not> fst (loop_body env ev (run_events env (e # pre) s)) \<or> shouldExit s'"
      using pre(4) by simp
    ultimately show ?thesis
      by (intro exI [of _ "e # pre"] conjI)
  next
    case False
    with Cons.prems have "Some (e, q, ?t) = Some (ev, rest, s')"
      unfolding WaitForEvent_Cons by (simp only: if_False)
    then have eq: "e = ev" "q = rest" "?t = s'"
      by auto
    have "e # q = [] @ ev # rest"
      using eq by auto
    moreover have "all_continue env [] s"
      by simp
    moreover have "snd (loop_body env ev (run_events env [] s)) = s'"
      using eq by auto
    moreover have "\<not> fst (loop_body env ev (run_events env [] s)) \<or> shouldExit s'"
      using False eq by auto
    ultimately show ?thesis
      by (intro exI [of _ "[]"] conjI)
  qed
qed

lemma WaitForEvent_None_iff: "WaitForEvent env q s = None \<longleftrightarrow> all_continue env q s"
  by (induction q arbitrary: s) (auto simp: case_prod_unfold)

lemma example_unhandled_body:
  "loop_body example_env (EvButton b) s
     = (False, s\<lparr>trace := trace s @ [CallSignalTaskbar, CallProcessTrayEvent,
                    CallProcessDialogEvent, CallProcessSwallowEvent, CallProcessPopupEvent]\<rparr>)"
  by (simp add: loop_body_def core_dispatch_def collaborators_def offer_def call_def
      example_env_def)

lemma example_handled_body:
  "loop_body example_env EvCreateNotify s
     = (True, s\<lparr>trace := trace s @ [CallSignalTaskbar, CallProcessPopupEvent]\<rparr>)"
  by (simp add: loop_body_def core_dispatch_def collaborators_def offer_def call_def
      example_env_def)

lemma example_exit_body:
  "loop_body example_env (EvPropertyNotify \<lparr>pr_window = 2, pr_atom = 115\<rparr>) example_world
     = (True, example_world\<lparr>shouldExit := True,
                trace := [CallSignalTaskbar, CallExit, CallProcessPopupEvent]\<rparr>)"
  by (simp add: loop_body_def core_dispatch_def collaborators_def offer_def call_def
      example_env_def HandlePropertyNotify_def FindClientByWindow_def FindClientByParent_def
      example_world_def example_client_def Exit_def)

text \<open>Claim C1, as amended. The loop reads at least one event. It returns with the event
  \<open>ev\<close> exactly when every event before \<open>ev\<close> was handled by some layer with the
  shutdown flag false afterwards, and \<open>ev\<close> either is left unhandled by every layer (the
  core handlers, then tray, dialog and swallow while it is unhandled, the popup always),
  whatever the shutdown flag is, or leaves the shutdown flag true. It never returns
  exactly when every event that arrives is handled with the flag false.\<close>

theorem WaitForEvent_returns_at_first_unhandled_or_exit:
  "(WaitForEvent env q s = Some (ev, rest, s') \<longleftrightarrow>
     (\<exists>pre. q = pre @ ev # rest \<and> all_continue env pre s
        \<and> snd (loop_body env ev (run_events env pre s)) = s'
        \<and> (\<not> fst (loop_body env ev (run_events env pre s)) \<or> shouldExit s')))
   \<and> (WaitForEvent env q s = None \<longleftrightarrow> all_continue env q s)"
proof (intro conjI iffI)
  assume "WaitForEvent env q s = Some (ev, rest, s')"
  then show "\<exists>pre. q = pre @ ev # rest \<and> all_continue env pre s
        \<and> snd (loop_body env ev (run_events env pre s)) = s'
        \<and> (\<not> fst (loop_body env ev (run_events env pre s)) \<or> shouldExit s')"
    by (rule WaitForEvent_stopped)
next
  assume "\<exists>pre. q = pre @ ev # rest \<and> all_continue env pre s
        \<and> snd (loop_body env ev (run_events env pre s)) = s'
        \<and> (\<not> fst (loop_body env ev (run_events env pre s)) \<or> shouldExit s')"
  then obtain pre where "q = pre @ ev # rest" "all_continue env pre s"
    "snd (loop_body env ev (run_events env pre s)) = s'"
    "\<not> fst (loop_body env ev (run_events env pre s)) \<or> shouldExit s'"
    by (elim exE conjE)
  then show "WaitForEvent env q s = Some (ev, rest, s')"
    by (simp only: WaitForEvent_stops)
next
  assume "WaitForEvent env q s = None"
  then show "all_continue env q s" by (simp only: WaitForEvent_None_iff)
next
  assume "all_continue env q s"
  then show "WaitForEvent env q s = None" by (simp only: WaitForEvent_None_iff)
qed

text \<open>Claim C1 as stated fails: a button press that no layer handles ends the loop while
  the shutdown flag is false.\<close>

theorem unhandled_event_ends_loop_counterexample:
  "\<not> shouldExit example_world
   \<and> loop_body example_env (EvButton (example_press 10 10 1000)) example_world
       = (False, example_world\<lparr>trace := [CallSignalTaskbar, CallProcessTrayEvent,
                    CallProcessDialogEvent, CallProcessSwallowEvent, CallProcessPopupEvent]\<rparr>)
   \<and> WaitForEvent example_env [EvButton (example_press 10 10 1000), EvCreateNotify] example_world
       = Some (EvButton (example_press 10 10 1000), [EvCreateNotify],
               example_world\<lparr>trace := [CallSignalTaskbar, CallProcessTrayEvent,
                    CallProcessDialogEvent, CallProcessSwallowEvent, CallProcessPopupEvent]\<rparr>)
   \<and> \<not> shouldExit (example_world\<lparr>trace := [CallSignalTaskbar, CallProcessTrayEvent,
                    CallProcessDialogEvent, CallProcessSwallowEvent, CallProcessPopupEvent]\<rparr>)"
  by (simp add: example_unhandled_body) (simp add: example_world_def)

theorem WaitForEvent_returns_at_first_unhandled_or_exit_witness:
  "all_continue example_env [EvCreateNotify] example_world
   \<and> fst (loop_body example_env (EvButton (example_press 10 10 1000))
            (run_events example_env [EvCreateNotify] example_world)) = False
   \<and> WaitForEvent example_env
        [EvCreateNotify, EvButton (example_press 10 10 1000), EvMapNotify] example_world
       = Some (EvButton (example_press 10 10 1000), [EvMapNotify],
               snd (loop_body example_env (EvButton (example_press 10 10 1000))
                      (run_events example_env [EvCreateNotify] example_world)))
   \<and> fst (loop_body example_env (EvPropertyNotify \<lparr>pr_window = 2, pr_atom = 115\<rparr>)
            example_world) = True
   \<and> shouldExit (snd (loop_body example_env (EvPropertyNotify \<lparr>pr_window = 2, pr_atom = 115\<rparr>)
                         example_world))
   \<and> WaitForEvent example_env
        [EvPropertyNotify \<lparr>pr_window = 2, pr_atom = 115\<rparr>, EvCreateNotify] example_world
       = Some (EvPropertyNotify \<lparr>pr_window = 2, pr_atom = 115\<rparr>, [EvCreateNotify],
               snd (loop_body example_env (EvPropertyNotify \<lparr>pr_window = 2, pr_atom = 115\<rparr>)
                      example_world))
   \<and> WaitForEvent example_env [EvCreateNotify, EvCreateNotify] example_world = None"
proof -
  let ?b = "EvButton (example_press 10 10 1000)"
  let ?x = "EvPropertyNotify \<lparr>pr_window = 2, pr_atom = 115\<rparr>"
  have go: "all_continue example_env [EvCreateNotify] example_world"
    by (simp add: example_handled_body) (simp add: example_world_def)
  have go2: "all_continue example_env [EvCreateNotify, EvCreateNotify] example_world"
    by (simp add: example_handled_body) (simp add: example_world_def)
  have un: "fst (loop_body example_env ?b
              (run_events example_env [EvCreateNotify] example_world)) = False"
    by (simp add: example_unhandled_body)
  have ex: "fst (loop_body example_env ?x example_world) = True"
    "shouldExit (snd (loop_body example_env ?x example_world))"
    by (simp_all add: example_exit_body)
  have first: "\<exists>pre. [EvCreateNotify, ?b, EvMapNotify] = pre @ ?b # [EvMapNotify]
      \<and> all_continue example_env pre example_world
      \<and> snd (loop_body example_env ?b (run_events example_env pre example_world))
          = snd (loop_body example_env ?b
                   (run_events example_env [EvCreateNotify] example_world))
      \<and> (\<not> fst (loop_body example_env ?b (run_events example_env pre example_world))
          \<or> shouldExit (snd (loop_body example_env ?b
                   (run_events example_env [EvCreateNotify] example_world))))"
    using go un by (intro exI [of _ "[EvCreateNotify]"]) simp
  have second: "\<exists>pre. [?x, EvCreateNotify] = pre @ ?x # [EvCreateNotify]
      \<and> all_continue example_env pre example_world
      \<and> snd (loop_body example_env ?x (run_events example_env pre example_world))
          = snd (loop_body example_env ?x example_world)
      \<and> (\<not> fst (loop_body example_env ?x (run_events example_env pre example_world))
          \<or> shouldExit (snd (loop_body example_env ?x example_world)))"
    using ex by (intro exI [of _ "[]"]) simp
  note main = WaitForEvent_returns_at_first_unhandled_or_exit [where env = example_env
      and s = example_world]
  from main [THEN conjunct1, THEN iffD2, OF first]
  have a: "WaitForEvent example_env [EvCreateNotify, ?b, EvMapNotify] example_world
       = Some (?b, [EvMapNotify],
               snd (loop_body example_env ?b
                      (run_events example_env [EvCreateNotify] example_world)))" .
  from main [THEN conjunct1, THEN iffD2, OF second]
  have b: "WaitForEvent example_env [?x, EvCreateNotify] example_world
       = Some (?x, [EvCreateNotify], snd (loop_body example_env ?x example_world))" .
  from main [THEN conjunct2, THEN iffD2, OF go2]
  have c: "WaitForEvent example_env [EvCreateNotify, EvCreateNotify] example_world = None" .
  show ?thesis
    using go un ex a b c by simp
qed

subsection \<open>Configure requests\<close>

lemma int32_id: "c_int v \<Longrightarrow> int32 v = v"
  by (simp add: c_int_def int32_def sint_sbintrunc' signed_take_bit_int_eq_self)

lemma cr_update_fields:
  "c_window (cr_update e c) = c_window c"
  "c_parent (cr_update e c) = c_parent c"
  "c_state (cr_update e c) = c_state c"
  "c_width (cr_update e c) = (if cr_value_mask e AND CWWidth \<noteq> 0 then cr_width e else c_width c)"
  "c_height (cr_update e c)
     = (if cr_value_mask e AND CWHeight \<noteq> 0 then cr_height e else c_height c)"
  by (simp_all add: cr_update_def)

lemma border_insets_nonneg:
  assumes "0 \<le> borderWidth env" and "0 \<le> titleSize env"
    and "border_insets env np = (north, south, east, west)"
  shows "0 \<le> north \<and> 0 \<le> south \<and> 0 \<le> east \<and> 0 \<le> west"
  using assms by (auto simp: border_insets_def split: if_splits)

lemma configure_calls:
  assumes found: "FindClientByWindow s (cr_window e) = Some i"
    and content: "c_window (clients s ! i) = cr_window e"
  shows "new_calls s (HandleConfigureRequest env e s) =
           (if c_controller (clients s ! i) then [CallController (cr_window e) 0] else [])
           @ (if cr_changed e (clients s ! i)
              then [CallJXConfigureWindow (c_parent (clients s ! i)) (cr_value_mask e)
                      (frame_changes env (cr_update e (clients s ! i))),
                    CallJXConfigureWindow (cr_window e) (cr_value_mask e)
                      (content_changes env (cr_update e (clients s ! i)))]
              else [])"
proof -
  have bound: "i < length (clients s)"
    using found by (rule FindClientByWindow_bound)
  show ?thesis
    using found content bound
    by (simp add: HandleConfigureRequest_def Let_def new_calls_def notify_controller_def
        modify_client_def call_def cr_update_fields)
qed

lemma two_steps_fit:
  assumes sizes: "0 \<le> borderWidth env" "0 \<le> titleSize env"
    and fits: "content_fits (c_window c) (c_parent c) srv"
    and np: "np = cr_update e c"
    and range: "frame_in_range env np"
    and srv1: "srv1 = XConfigureWindow (c_parent c) (cr_value_mask e) (frame_changes env np) srv"
    and srv2: "srv2 = XConfigureWindow (c_window c) (cr_value_mask e) (content_changes env np) srv1"
  shows "content_fits (c_window c) (c_parent c) srv2"
    and "(cr_value_mask e AND CWWidth \<noteq> 0 \<longrightarrow> g_width (srv (c_window c)) \<le> cr_width e)
         \<Longrightarrow> (cr_value_mask e AND CWHeight \<noteq> 0 \<longrightarrow> g_height (srv (c_window c)) \<le> cr_height e)
         \<Longrightarrow> content_fits (c_window c) (c_parent c) srv1"
proof -
  obtain north south east west where ins: "border_insets env np = (north, south, east, west)"
    by (cases "border_insets env np") auto
  from border_insets_nonneg [OF sizes ins]
  have nonneg: "0 \<le> north" "0 \<le> south" "0 \<le> east" "0 \<le> west"
    by simp_all
  from range have "c_int (c_width np + east)" "c_int (c_width np + east + west)"
    "c_int (c_height np + north)" "c_int (c_height np + north + south)"
    by (simp_all add: frame_in_range_def ins)
  then have fw: "wc_width (frame_changes env np) = c_width np + east + west"
    "wc_height (frame_changes env np) = c_height np + north + south"
    "wc_width (content_changes env np) = c_width np"
    "wc_height (content_changes env np) = c_height np"
    by (simp_all add: frame_changes_def content_changes_def ins c_add_def int32_id)
  have dims: "c_width np = (if cr_value_mask e AND CWWidth \<noteq> 0 then cr_width e else c_width c)"
    "c_height np = (if cr_value_mask e AND CWHeight \<noteq> 0 then cr_height e else c_height c)"
    by (simp_all add: np cr_update_fields)
  show "content_fits (c_window c) (c_parent c) srv2"
    using fits nonneg
    by (cases "c_window c = c_parent c")
      (auto simp: content_fits_def srv1 srv2 XConfigureWindow_def fw dims)
  show "content_fits (c_window c) (c_parent c) srv1"
    if "cr_value_mask e AND CWWidth \<noteq> 0 \<longrightarrow> g_width (srv (c_window c)) \<le> cr_width e"
      and "cr_value_mask e AND CWHeight \<noteq> 0 \<longrightarrow> g_height (srv (c_window c)) \<le> cr_height e"
    using fits nonneg that
    by (cases "c_window c = c_parent c")
      (auto simp: content_fits_def srv1 XConfigureWindow_def fw dims)
qed

text \<open>Without the bound the sum wraps: a content as wide as the largest
  \<^verbatim>\<open>int\<close> gets a frame of negative width.\<close>

lemma frame_width_wraps:
  "wc_width (frame_changes example_env (example_client\<lparr>c_width := 2147483647\<rparr>))
     = - 2147483641"
  by (simp add: frame_changes_def border_insets_def example_env_def example_client_def
      has_border_def BORDER_OUTLINE_def BORDER_TITLE_def c_add_def int32_def)

lemma example_configure_calls:
  "new_calls example_world
     (HandleConfigureRequest example_env (example_request w h) example_world)
   = (if w = 100 \<and> h = 100 then [CallController 10 0]
      else [CallController 10 0,
            CallJXConfigureWindow 11 12
              \<lparr>wc_x = 0, wc_y = 0, wc_width = c_add (c_add w 4) 4,
               wc_height = c_add (c_add h 20) 4,
               wc_border_width = 0, wc_sibling = 11, wc_stack_mode = 0\<rparr>,
            CallJXConfigureWindow 10 12
              \<lparr>wc_x = 4, wc_y = 20, wc_width = w, wc_height = h,
               wc_border_width = 0, wc_sibling = 11, wc_stack_mode = 0\<rparr>])"
proof -
  have f: "FindClientByWindow example_world (cr_window (example_request w h)) = Some 0"
    by (simp add: FindClientByWindow_def example_world_def example_client_def
        example_request_def)
  have c: "c_window (clients example_world ! 0) = cr_window (example_request w h)"
    by (simp add: example_world_def example_client_def example_request_def)
  show ?thesis
    unfolding configure_calls [OF f c]
    by (simp add: example_world_def example_client_def example_request_def example_env_def
        cr_changed_def cr_update_def frame_changes_def content_changes_def border_insets_def
        has_border_def BORDER_OUTLINE_def BORDER_TITLE_def CWWidth_def CWHeight_def CWX_def
        CWY_def Above_def)
qed

text \<open>Claim C2, as amended. For a configure request on a managed client whose content
  window is the event window: when no requested field differs from the stored geometry
  nothing is sent to the display; otherwise exactly two configure calls are made, in
  one fixed order on enlargement and on shrink alike: first the frame, to the content
  size plus the insets of the border style, then the content. With border sizes that
  are not negative, a content size to which the insets are added without overflow, and
  a frame that held the content before, the content is within the frame after the
  second step, and after every step when the request makes the content no smaller.\<close>

theorem configure_request_frame_then_content:
  assumes found: "FindClientByWindow s (cr_window e) = Some i"
    and content: "c_window (clients s ! i) = cr_window e"
    and sizes: "0 \<le> borderWidth env" "0 \<le> titleSize env"
    and fits: "content_fits (cr_window e) (c_parent (clients s ! i)) srv"
    and np: "np = cr_update e (clients s ! i)"
    and range: "frame_in_range env np"
    and calls: "calls = new_calls s (HandleConfigureRequest env e s)"
  shows "calls =
           (if c_controller (clients s ! i) then [CallController (cr_window e) 0] else [])
           @ (if cr_changed e (clients s ! i)
              then [CallJXConfigureWindow (c_parent np) (cr_value_mask e) (frame_changes env np),
                    CallJXConfigureWindow (c_window np) (cr_value_mask e)
                      (content_changes env np)]
              else [])
       \<and> wc_width (frame_changes env np)
           = c_width np + (if has_border BORDER_OUTLINE np then 2 * borderWidth env else 0)
       \<and> wc_height (frame_changes env np)
           = c_height np
             + (if has_border BORDER_OUTLINE np
                then (if has_border BORDER_TITLE np then titleSize env else borderWidth env)
                     + borderWidth env
                else 0)
       \<and> wc_width (content_changes env np) = c_width np
       \<and> wc_height (content_changes env np) = c_height np
       \<and> length (x_states calls srv) = (if cr_changed e (clients s ! i) then 2 else 0)
       \<and> (cr_changed e (clients s ! i) \<longrightarrow>
            content_fits (c_window np) (c_parent np) (last (x_states calls srv)))
       \<and> ((cr_value_mask e AND CWWidth \<noteq> 0 \<longrightarrow> g_width (srv (cr_window e)) \<le> cr_width e)
          \<and> (cr_value_mask e AND CWHeight \<noteq> 0 \<longrightarrow> g_height (srv (cr_window e)) \<le> cr_height e)
          \<longrightarrow> (\<forall>srv' \<in> set (x_states calls srv). content_fits (c_window np) (c_parent np) srv'))"
proof -
  let ?c = "clients s ! i"
  let ?srv1 = "XConfigureWindow (c_parent ?c) (cr_value_mask e) (frame_changes env np) srv"
  let ?srv2 = "XConfigureWindow (c_window ?c) (cr_value_mask e) (content_changes env np) ?srv1"
  have ids: "c_window np = cr_window e" "c_parent np = c_parent ?c"
    by (simp_all add: np cr_update_fields content)
  have fits': "content_fits (c_window ?c) (c_parent ?c) srv"
    using fits content by simp
  have list: "calls =
           (if c_controller ?c then [CallController (cr_window e) 0] else [])
           @ (if cr_changed e ?c
              then [CallJXConfigureWindow (c_parent np) (cr_value_mask e) (frame_changes env np),
                    CallJXConfigureWindow (c_window np) (cr_value_mask e)
                      (content_changes env np)]
              else [])"
    unfolding calls configure_calls [OF found content] ids by (simp add: np)
  have states: "x_states calls srv = (if cr_changed e ?c then [?srv1, ?srv2] else [])"
    unfolding list ids by (simp add: content)
  have insets: "wc_width (frame_changes env np)
           = c_width np + (if has_border BORDER_OUTLINE np then 2 * borderWidth env else 0)"
    "wc_height (frame_changes env np)
           = c_height np
             + (if has_border BORDER_OUTLINE np
                then (if has_border BORDER_TITLE np then titleSize env else borderWidth env)
                     + borderWidth env
                else 0)"
    "wc_width (content_changes env np) = c_width np"
    "wc_height (content_changes env np) = c_height np"
    using range
    by (auto simp add: frame_changes_def content_changes_def border_insets_def
        frame_in_range_def c_add_def int32_id split: if_splits)
  have final: "content_fits (c_window np) (c_parent np) (last (x_states calls srv))"
    if "cr_changed e ?c"
    using that two_steps_fit(1) [OF sizes fits' np range refl refl]
    by (simp add: states ids content)
  have every: "\<forall>srv' \<in> set (x_states calls srv). content_fits (c_window np) (c_parent np) srv'"
    if "cr_value_mask e AND CWWidth \<noteq> 0 \<longrightarrow> g_width (srv (cr_window e)) \<le> cr_width e"
      and "cr_value_mask e AND CWHeight \<noteq> 0 \<longrightarrow> g_height (srv (cr_window e)) \<le> cr_height e"
    using that two_steps_fit(1) [OF sizes fits' np range refl refl]
      two_steps_fit(2) [OF sizes fits' np range refl refl]
    by (auto simp: states ids content)
  from list insets states final every show ?thesis
    by simp
qed

text \<open>Claim C2 as stated fails: on a shrink the frame is still resized first, and between
  the two steps the content (100 wide) is larger than the frame (58 wide).\<close>

theorem shrink_request_counterexample:
  "FindClientByWindow example_world (cr_window (example_request 50 50)) = Some 0
   \<and> c_window (clients example_world ! 0) = cr_window (example_request 50 50)
   \<and> c_parent (clients example_world ! 0) = 11
   \<and> content_fits 10 11 example_server
   \<and> cr_width (example_request 50 50) < g_width (example_server 10)
   \<and> x_states (new_calls example_world
        (HandleConfigureRequest example_env (example_request 50 50) example_world))
        example_server ! 0
       = XConfigureWindow 11 12
           \<lparr>wc_x = 0, wc_y = 0, wc_width = 58, wc_height = 74,
            wc_border_width = 0, wc_sibling = 11, wc_stack_mode = 0\<rparr> example_server
   \<and> g_width (XConfigureWindow 11 12
           \<lparr>wc_x = 0, wc_y = 0, wc_width = 58, wc_height = 74,
            wc_border_width = 0, wc_sibling = 11, wc_stack_mode = 0\<rparr> example_server 10) = 100
   \<and> g_width (XConfigureWindow 11 12
           \<lparr>wc_x = 0, wc_y = 0, wc_width = 58, wc_height = 74,
            wc_border_width = 0, wc_sibling = 11, wc_stack_mode = 0\<rparr> example_server 11) = 58
   \<and> \<not> content_fits 10 11
         (x_states (new_calls example_world
            (HandleConfigureRequest example_env (example_request 50 50) example_world))
            example_server ! 0)"
  unfolding example_configure_calls
  by (simp add: FindClientByWindow_def example_world_def example_client_def
      example_request_def content_fits_def example_server_def XConfigureWindow_def
      CWWidth_def CWHeight_def CWX_def CWY_def c_add_def int32_def)

theorem configure_request_frame_then_content_witness:
  "FindClientByWindow example_world (cr_window (example_request 200 150)) = Some 0
   \<and> c_window (clients example_world ! 0) = cr_window (example_request 200 150)
   \<and> 0 \<le> borderWidth example_env \<and> 0 \<le> titleSize example_env
   \<and> content_fits (cr_window (example_request 200 150)) (c_parent (clients example_world ! 0))
        example_server
   \<and> cr_changed (example_request 200 150) (clients example_world ! 0)
   \<and> frame_in_range example_env
        (cr_update (example_request 200 150) (clients example_world ! 0))
   \<and> g_width (example_server 10) \<le> cr_width (example_request 200 150)
   \<and> g_height (example_server 10) \<le> cr_height (example_request 200 150)
   \<and> new_calls example_world
        (HandleConfigureRequest example_env (example_request 200 150) example_world)
       = [CallController 10 0,
          CallJXConfigureWindow 11 12
            \<lparr>wc_x = 0, wc_y = 0, wc_width = 208, wc_height = 174,
             wc_border_width = 0, wc_sibling = 11, wc_stack_mode = 0\<rparr>,
          CallJXConfigureWindow 10 12
            \<lparr>wc_x = 4, wc_y = 20, wc_width = 200, wc_height = 150,
             wc_border_width = 0, wc_sibling = 11, wc_stack_mode = 0\<rparr>]
   \<and> length (x_states (new_calls example_world
         (HandleConfigureRequest example_env (example_request 200 150) example_world))
         example_server) = 2
   \<and> list_all (content_fits 10 11)
        (x_states (new_calls example_world
           (HandleConfigureRequest example_env (example_request 200 150) example_world))
           example_server)"
proof -
  let ?e = "example_request 200 150"
  let ?calls = "new_calls example_world (HandleConfigureRequest example_env ?e example_world)"
  have f: "FindClientByWindow example_world (cr_window ?e) = Some 0"
    by (simp add: FindClientByWindow_def example_world_def example_client_def
        example_request_def)
  have c: "c_window (clients example_world ! 0) = cr_window ?e"
    by (simp add: example_world_def example_client_def example_request_def)
  have b: "0 \<le> borderWidth example_env" "0 \<le> titleSize example_env"
    by (simp_all add: example_env_def)
  have fits: "content_fits (cr_window ?e) (c_parent (clients example_world ! 0)) example_server"
    by (simp add: content_fits_def example_server_def example_world_def example_client_def
        example_request_def)
  have ch: "cr_changed ?e (clients example_world ! 0)"
    by (simp add: cr_changed_def example_request_def example_world_def example_client_def
        CWWidth_def)
  have grow: "g_width (example_server 10) \<le> cr_width ?e"
    "g_height (example_server 10) \<le> cr_height ?e"
    by (simp_all add: example_server_def example_request_def)
  have ids: "cr_window ?e = 10" "c_window (cr_update ?e (clients example_world ! 0)) = 10"
    "c_parent (cr_update ?e (clients example_world ! 0)) = 11"
    by (simp_all add: example_request_def cr_update_fields example_world_def
        example_client_def)
  have range: "frame_in_range example_env (cr_update ?e (clients example_world ! 0))"
    by (simp add: frame_in_range_def border_insets_def cr_update_def example_request_def
        example_world_def example_client_def example_env_def has_border_def
        BORDER_OUTLINE_def BORDER_TITLE_def CWWidth_def CWHeight_def c_int_def)
  note main = configure_request_frame_then_content [OF f c b fits refl range refl]
  from main ch have len: "length (x_states ?calls example_server) = 2"
    by simp
  from main grow ids
  have "\<forall>srv' \<in> set (x_states ?calls example_server). content_fits 10 11 srv'"
    by simp
  then have every: "list_all (content_fits 10 11) (x_states ?calls example_server)"
    by (simp add: list_all_iff)
  show ?thesis
    using f c b fits ch range grow len every
    by (simp add: example_configure_calls c_add_def int32_def)
qed

subsection \<open>Unmap and destroy notifications\<close>

text \<open>Claim C3. For a client with a controller installed, and a registry in which no
  window id is shared: an unmap notification for its content window calls the
  controller once, with the ending argument 1, on the state as it was, and only then
  clears the mapped flag and unmaps the frame; a destroy notification calls it once
  with 1 and only then removes the client. After the removal neither id resolves any
  more, so a late unmap (or a second destroy) for the same window finds no client and
  does nothing: over the sequence destroy, unmap the controller is called once.\<close>

theorem controller_ending_once_before_removal:
  assumes found: "FindClientByWindow s w = Some i"
    and content: "c_window (clients s ! i) = w"
    and registered: "c_controller (clients s ! i)"
    and unique: "ids_unique (clients s)"
  shows "HandleUnmapNotify w s =
           (if has_status STAT_MAPPED (clients s ! i)
            then call (CallJXUnmapWindow (c_parent (clients s ! i)))
                   (modify_client i (clear_status STAT_MAPPED) (call (CallController w 1) s))
            else call (CallController w 1) s)
       \<and> filter is_controller_call (new_calls s (HandleUnmapNotify w s)) = [CallController w 1]
       \<and> HandleDestroyNotify w s = (True, RemoveClient i (call (CallController w 1) s))
       \<and> new_calls s (snd (HandleDestroyNotify w s)) = [CallController w 1, CallRemoveClient w]
       \<and> FindClientByWindow (snd (HandleDestroyNotify w s)) w = None
       \<and> FindClientByWindow (snd (HandleDestroyNotify w s)) (c_parent (clients s ! i)) = None
       \<and> FindClientByParent (snd (HandleDestroyNotify w s)) (c_parent (clients s ! i)) = None
       \<and> HandleUnmapNotify w (snd (HandleDestroyNotify w s)) = snd (HandleDestroyNotify w s)
       \<and> HandleDestroyNotify w (snd (HandleDestroyNotify w s))
           = (False, snd (HandleDestroyNotify w s))"
proof -
  let ?c = "call (CallController w 1) s"
  have bound: "i < length (clients s)"
    using found by (rule FindClientByWindow_bound)
  have unmap: "HandleUnmapNotify w s =
           (if has_status STAT_MAPPED (clients s ! i)
            then call (CallJXUnmapWindow (c_parent (clients s ! i)))
                   (modify_client i (clear_status STAT_MAPPED) ?c)
            else ?c)"
    using found content registered
    by (simp add: HandleUnmapNotify_def notify_controller_def)
  have count: "filter is_controller_call (new_calls s (HandleUnmapNotify w s))
                 = [CallController w 1]"
    unfolding unmap
    by (simp add: new_calls_def is_controller_call_def modify_client_def call_def)
  have destroy: "HandleDestroyNotify w s = (True, RemoveClient i ?c)"
    using found content registered
    by (simp add: HandleDestroyNotify_def notify_controller_def)
  have calls: "new_calls s (RemoveClient i ?c) = [CallController w 1, CallRemoveClient w]"
    using content by (simp add: new_calls_def RemoveClient_def call_def)
  have after: "clients (RemoveClient i ?c) = take i (clients s) @ drop (Suc i) (clients s)"
    by (simp add: RemoveClient_def call_def)
  have gone_w: "FindClientByWindow (RemoveClient i ?c) w = None"
    using removed_ids_forgotten [OF unique bound, of w] content
    by (simp add: FindClientByWindow_def FindClientByParent_def after)
  have gone_p: "FindClientByWindow (RemoveClient i ?c) (c_parent (clients s ! i)) = None
              \<and> FindClientByParent (RemoveClient i ?c) (c_parent (clients s ! i)) = None"
    using removed_ids_forgotten [OF unique bound, of "c_parent (clients s ! i)"]
    by (simp add: FindClientByWindow_def FindClientByParent_def after)
  have late: "HandleUnmapNotify w (RemoveClient i ?c) = RemoveClient i ?c"
    using gone_w by (simp add: HandleUnmapNotify_def)
  have again: "HandleDestroyNotify w (RemoveClient i ?c) = (False, RemoveClient i ?c)"
    using gone_w by (simp add: HandleDestroyNotify_def)
  show ?thesis
    using unmap count calls gone_w gone_p late again by (simp add: destroy)
qed

lemma example_found: "FindClientByWindow example_world 10 = Some 0"
  by (simp add: FindClientByWindow_def example_world_def example_client_def)

theorem controller_ending_once_before_removal_witness:
  "FindClientByWindow example_world 10 = Some 0
   \<and> c_window (clients example_world ! 0) = 10
   \<and> c_controller (clients example_world ! 0)
   \<and> ids_unique (clients example_world)
   \<and> new_calls example_world (HandleUnmapNotify 10 example_world)
        = [CallController 10 1, CallJXUnmapWindow 11]
   \<and> new_calls example_world (snd (HandleDestroyNotify 10 example_world))
        = [CallController 10 1, CallRemoveClient 10]
   \<and> new_calls example_world
        (HandleUnmapNotify 10 (snd (HandleDestroyNotify 10 example_world)))
        = [CallController 10 1, CallRemoveClient 10]
   \<and> clients (HandleUnmapNotify 10 (snd (HandleDestroyNotify 10 example_world))) = []"
proof -
  have w: "c_window (clients example_world ! 0) = 10"
    by (simp add: example_world_def example_client_def)
  have r: "c_controller (clients example_world ! 0)"
    by (simp add: example_world_def example_client_def)
  have u: "ids_unique (clients example_world)"
    by (simp add: example_world_def)
  have m: "has_status STAT_MAPPED (clients example_world ! 0)"
    by (simp add: example_world_def example_client_def has_status_def STAT_MAPPED_def)
  have p: "c_parent (clients example_world ! 0) = 11"
    by (simp add: example_world_def example_client_def)
  have t: "trace example_world = []"
    by (simp add: example_world_def)
  note main = controller_ending_once_before_removal [OF example_found w r u]
  from main have destroy: "HandleDestroyNotify 10 example_world
      = (True, RemoveClient 0 (call (CallController 10 1) example_world))"
    by blast
  from main have late: "HandleUnmapNotify 10 (snd (HandleDestroyNotify 10 example_world))
      = snd (HandleDestroyNotify 10 example_world)"
    by blast
  from main have calls: "new_calls example_world (snd (HandleDestroyNotify 10 example_world))
      = [CallController 10 1, CallRemoveClient 10]"
    by blast
  from main have "HandleUnmapNotify 10 example_world =
      call (CallJXUnmapWindow 11)
        (modify_client 0 (clear_status STAT_MAPPED) (call (CallController 10 1) example_world))"
    using m p by simp
  then have a: "new_calls example_world (HandleUnmapNotify 10 example_world)
             = [CallController 10 1, CallJXUnmapWindow 11]"
    using t by (simp add: new_calls_def modify_client_def call_def)
  have b: "clients (snd (HandleDestroyNotify 10 example_world)) = []"
    unfolding destroy by (simp add: RemoveClient_def call_def example_world_def)
  show ?thesis
    unfolding late using a b calls example_found w r u by simp
qed

text \<open>Claim C9. An unmap or destroy notification whose window resolves to a client but
  is not that client's content window (it is, say, its decoration window) changes
  nothing: the client's state, its controller and its registration are as before, no
  call is made, and the destroy handler reports the event unhandled.\<close>

theorem unmap_destroy_of_other_id_no_effect:
  assumes "FindClientByWindow s w = Some i" and "c_window (clients s ! i) \<noteq> w"
  shows "HandleUnmapNotify w s = s \<and> HandleDestroyNotify w s = (False, s)"
  using assms by (simp add: HandleUnmapNotify_def HandleDestroyNotify_def)

theorem unmap_destroy_of_other_id_no_effect_witness:
  "FindClientByWindow example_world 11 = Some 0
   \<and> c_window (clients example_world ! 0) \<noteq> 11
   \<and> HandleUnmapNotify 11 example_world = example_world
   \<and> HandleDestroyNotify 11 example_world = (False, example_world)"
proof -
  have f: "FindClientByWindow example_world 11 = Some 0"
    by (simp add: FindClientByWindow_def FindClientByParent_def example_world_def
        example_client_def)
  have n: "c_window (clients example_world ! 0) \<noteq> 11"
    by (simp add: example_world_def example_client_def)
  from unmap_destroy_of_other_id_no_effect [OF f n] f n show ?thesis by simp
qed

subsection \<open>Button events on the frame\<close>

lemma move_press:
  assumes "has_border BORDER_OUTLINE (clients s ! i)"
    and "b_type e = ButtonPress"
    and "GetBorderActionType env (clients s ! i) (b_x e) (b_y e) AND 0x0F = BA_MOVE"
  shows "DispatchBorderButtonEvent env e i s =
     (if is_double_click env e s then
        (call (if has_status STAT_SHADED (clients s ! i)
               then CallUnshadeClient (c_window (clients s ! i))
               else CallShadeClient (c_window (clients s ! i))) s)
          \<lparr>doubleClickActive := False\<rparr>
      else if MoveClient env s (clients s ! i) (b_x e) (b_y e) then
        (call (CallMoveClient (c_window (clients s ! i)) (b_x e) (b_y e)) s)
          \<lparr>doubleClickActive := False\<rparr>
      else
        (call (CallMoveClient (c_window (clients s ! i)) (b_x e) (b_y e)) s)
          \<lparr>lastClickTime := b_time e, lastX := b_x e, lastY := b_y e,
           doubleClickActive := True\<rparr>)"
  using assms by (simp add: DispatchBorderButtonEvent_def Let_def zone_codes)

text \<open>The rule of the detector, for two presses of button 1 in the move zone of one
  client. Each press makes exactly one call: the shade toggle if the detector is armed
  and the test on time and distance passes, a move otherwise. A double click and a move
  that completes disarm the detector; a press that stays a click arms it with its own
  time and position.\<close>

lemma double_click_rule:
  assumes outline: "has_border BORDER_OUTLINE (clients s ! i)"
    and press1: "b_type e1 = ButtonPress"
    and zone1: "GetBorderActionType env (clients s ! i) (b_x e1) (b_y e1) AND 0x0F = BA_MOVE"
    and press2: "b_type e2 = ButtonPress"
    and zone2: "GetBorderActionType env (clients s ! i) (b_x e2) (b_y e2) AND 0x0F = BA_MOVE"
    and w: "w = c_window (clients s ! i)"
    and toggle: "toggle = (if has_status STAT_SHADED (clients s ! i)
                           then CallUnshadeClient w else CallShadeClient w)"
    and double1: "double1 \<longleftrightarrow>
         doubleClickActive s
         \<and> c_abs (sint (b_time e1 - lastClickTime s)) \<le> doubleClickSpeed env
         \<and> c_abs (c_sub (b_x e1) (lastX s)) \<le> doubleClickDelta env
         \<and> c_abs (c_sub (b_y e1) (lastY s)) \<le> doubleClickDelta env"
    and s1: "s1 = DispatchBorderButtonEvent env e1 i s"
    and s2: "s2 = DispatchBorderButtonEvent env e2 i s1"
  shows "new_calls s s1 = [if double1 then toggle else CallMoveClient w (b_x e1) (b_y e1)]
       \<and> clients s1 = clients s
       \<and> (double1 \<longrightarrow> \<not> doubleClickActive s1)
       \<and> (\<not> double1 \<and> MoveClient env s (clients s ! i) (b_x e1) (b_y e1) \<longrightarrow>
            \<not> doubleClickActive s1
            \<and> new_calls s1 s2 = [CallMoveClient w (b_x e2) (b_y e2)])
       \<and> (\<not> double1 \<and> \<not> MoveClient env s (clients s ! i) (b_x e1) (b_y e1) \<longrightarrow>
            doubleClickActive s1
            \<and> new_calls s1 s2 =
                [if c_abs (sint (b_time e2 - b_time e1)) \<le> doubleClickSpeed env
                    \<and> c_abs (c_sub (b_x e2) (b_x e1)) \<le> doubleClickDelta env
                    \<and> c_abs (c_sub (b_y e2) (b_y e1)) \<le> doubleClickDelta env
                 then toggle else CallMoveClient w (b_x e2) (b_y e2)])"
proof -
  have d1: "double1 = is_double_click env e1 s"
    by (simp add: double1 is_double_click_def)
  have first: "s1 =
     (if double1 then (call toggle s)\<lparr>doubleClickActive := False\<rparr>
      else if MoveClient env s (clients s ! i) (b_x e1) (b_y e1) then
        (call (CallMoveClient w (b_x e1) (b_y e1)) s)\<lparr>doubleClickActive := False\<rparr>
      else
        (call (CallMoveClient w (b_x e1) (b_y e1)) s)
          \<lparr>lastClickTime := b_time e1, lastX := b_x e1, lastY := b_y e1,
           doubleClickActive := True\<rparr>)"
    unfolding s1 move_press [OF outline press1 zone1] d1 w toggle by simp
  have same: "clients s1 = clients s"
    unfolding first by (simp add: call_def)
  have second: "s2 =
     (if is_double_click env e2 s1 then (call toggle s1)\<lparr>doubleClickActive := False\<rparr>
      else if MoveClient env s1 (clients s ! i) (b_x e2) (b_y e2) then
        (call (CallMoveClient w (b_x e2) (b_y e2)) s1)\<lparr>doubleClickActive := False\<rparr>
      else
        (call (CallMoveClient w (b_x e2) (b_y e2)) s1)
          \<lparr>lastClickTime := b_time e2, lastX := b_x e2, lastY := b_y e2,
           doubleClickActive := True\<rparr>)"
    using outline press2 zone2 unfolding s2 w toggle
    by (subst move_press) (simp_all add: same)
  have calls2: "new_calls s1 s2 =
      [if is_double_click env e2 s1 then toggle else CallMoveClient w (b_x e2) (b_y e2)]"
    unfolding second by (simp add: new_calls_def call_def)
  have a: "new_calls s s1 = [if double1 then toggle else CallMoveClient w (b_x e1) (b_y e1)]"
    unfolding first by (simp add: new_calls_def call_def)
  have b: "\<not> doubleClickActive s1" if double1
    using that unfolding first by (simp add: call_def)
  have c: "\<not> doubleClickActive s1 \<and> new_calls s1 s2 = [CallMoveClient w (b_x e2) (b_y e2)]"
    if "\<not> double1" "MoveClient env s (clients s ! i) (b_x e1) (b_y e1)"
  proof -
    from that have "\<not> doubleClickActive s1"
      unfolding first by (simp add: call_def)
    then show ?thesis
      using calls2 by (simp add: is_double_click_def)
  qed
  have d: "doubleClickActive s1 \<and> new_calls s1 s2 =
                [if c_abs (sint (b_time e2 - b_time e1)) \<le> doubleClickSpeed env
                    \<and> c_abs (c_sub (b_x e2) (b_x e1)) \<le> doubleClickDelta env
                    \<and> c_abs (c_sub (b_y e2) (b_y e1)) \<le> doubleClickDelta env
                 then toggle else CallMoveClient w (b_x e2) (b_y e2)]"
    if "\<not> double1" "\<not> MoveClient env s (clients s ! i) (b_x e1) (b_y e1)"
  proof -
    from that have "doubleClickActive s1" "lastClickTime s1 = b_time e1"
      "lastX s1 = b_x e1" "lastY s1 = b_y e1"
      unfolding first by (simp_all add: call_def)
    then show ?thesis
      using calls2 by (simp add: is_double_click_def)
  qed
  from a same b c d show ?thesis by blast
qed

text \<open>Presses at (10,10) and (12,11) with a window of 400 ms and 2 pixels: 300 ms apart
  the second toggles shade, 1000 ms apart each starts a move.\<close>

lemma double_click_examples:
  "has_border BORDER_OUTLINE (clients example_world ! 0)
   \<and> doubleClickSpeed example_env = 400 \<and> doubleClickDelta example_env = 2
   \<and> new_calls example_world
        (DispatchBorderButtonEvent example_env (example_press 10 10 1000) 0 example_world)
       = [CallMoveClient 10 10 10]
   \<and> new_calls
        (DispatchBorderButtonEvent example_env (example_press 10 10 1000) 0 example_world)
        (DispatchBorderButtonEvent example_env (example_press 12 11 1300) 0
           (DispatchBorderButtonEvent example_env (example_press 10 10 1000) 0 example_world))
       = [CallShadeClient 10]
   \<and> new_calls
        (DispatchBorderButtonEvent example_env (example_press 10 10 1000) 0 example_world)
        (DispatchBorderButtonEvent example_env (example_press 12 11 2000) 0
           (DispatchBorderButtonEvent example_env (example_press 10 10 1000) 0 example_world))
       = [CallMoveClient 10 12 11]"
proof -
  let ?e1 = "example_press 10 10 1000"
  let ?s1 = "DispatchBorderButtonEvent example_env ?e1 0 example_world"
  have o: "has_border BORDER_OUTLINE (clients example_world ! 0)"
    by (simp add: example_world_def example_client_def has_border_def BORDER_OUTLINE_def)
  have p: "b_type (example_press x y t) = ButtonPress" for x y t
    by (simp add: example_press_def ButtonPress_def)
  have z: "GetBorderActionType example_env (clients example_world ! 0)
             (b_x (example_press x y t)) (b_y (example_press x y t)) AND 0x0F = BA_MOVE"
    for x y t
    by (simp add: example_env_def BA_MOVE_def)
  have w: "10 = c_window (clients example_world ! 0)"
    by (simp add: example_world_def example_client_def)
  have g: "CallShadeClient 10 = (if has_status STAT_SHADED (clients example_world ! 0)
                           then CallUnshadeClient 10 else CallShadeClient 10)"
    by (simp add: example_world_def example_client_def has_status_def STAT_SHADED_def)
  have d: "False \<longleftrightarrow>
         doubleClickActive example_world
         \<and> c_abs (sint (b_time ?e1 - lastClickTime example_world)) \<le> doubleClickSpeed example_env
         \<and> c_abs (c_sub (b_x ?e1) (lastX example_world)) \<le> doubleClickDelta example_env
         \<and> c_abs (c_sub (b_y ?e1) (lastY example_world)) \<le> doubleClickDelta example_env"
    by (simp add: example_world_def)
  have c: "doubleClickSpeed example_env = 400" "doubleClickDelta example_env = 2"
    "\<not> MoveClient example_env example_world (clients example_world ! 0) (b_x ?e1) (b_y ?e1)"
    by (simp_all add: example_env_def)
  have v: "b_x (example_press x y t) = x" "b_y (example_press x y t) = y"
    "b_time (example_press x y t) = t" for x y t
    by (simp_all add: example_press_def)
  note near = double_click_rule [OF o p [of 10 10 1000] z [of 10 10 1000]
      p [of 12 11 1300] z [of 12 11 1300] w g d refl refl]
  note late = double_click_rule [OF o p [of 10 10 1000] z [of 10 10 1000]
      p [of 12 11 2000] z [of 12 11 2000] w g d refl refl]
  from near have a1: "new_calls example_world ?s1 = [CallMoveClient 10 10 10]"
    by (simp add: v c_abs_def c_sub_def int32_def)
  from near c have a2: "new_calls ?s1
      (DispatchBorderButtonEvent example_env (example_press 12 11 1300) 0 ?s1)
       = [CallShadeClient 10]"
    by (simp add: v c_abs_def c_sub_def int32_def)
  from late c have a3: "new_calls ?s1
      (DispatchBorderButtonEvent example_env (example_press 12 11 2000) 0 ?s1)
       = [CallMoveClient 10 12 11]"
    by (simp add: v c_abs_def c_sub_def int32_def)
  show ?thesis
    using o c(1,2) a1 a2 a3 by simp
qed

lemma c_abs_eq:
  assumes "c_int v" and "v \<noteq> - (2 ^ 31)"
  shows "c_abs v = \<bar>v\<bar>"
proof -
  from assms have "- (2 ^ 31) \<le> \<bar>v\<bar>" and "\<bar>v\<bar> < 2 ^ 31"
    by (auto simp: c_int_def)
  then show ?thesis
    by (simp add: c_abs_def int32_def sint_sbintrunc' signed_take_bit_int_eq_self)
qed

lemma c_abs_least: "c_abs (- (2 ^ 31)) = - (2 ^ 31)"
  by (simp add: c_abs_def int32_def)

text \<open>Claim C4 fails on the code at one input. The claim has a press toggle shade only
  within the configured time of the previous press. The test is
  \<^verbatim>\<open>abs(event->time - lastClickTime) <= doubleClickSpeed\<close>, and for two presses
  exactly \<open>2 ^ 31\<close> ms apart the difference taken as an \<^verbatim>\<open>int\<close> is the least
  value, of which \<^verbatim>\<open>abs\<close> is the least value again, below any delta. Here a click at
  (10,10) at time 1000 arms the detector, and the press at the same place \<open>2 ^ 31\<close> ms
  later toggles shade, with a window of 400 ms.\<close>

theorem double_click_at_half_timestamp_range:
  "doubleClickSpeed example_env = 400
   \<and> uint (b_time (example_press 10 10 2147484648) - b_time (example_press 10 10 1000))
       = 2 ^ 31
   \<and> new_calls example_world
        (DispatchBorderButtonEvent example_env (example_press 10 10 1000) 0 example_world)
       = [CallMoveClient 10 10 10]
   \<and> doubleClickActive
        (DispatchBorderButtonEvent example_env (example_press 10 10 1000) 0 example_world)
   \<and> new_calls
        (DispatchBorderButtonEvent example_env (example_press 10 10 1000) 0 example_world)
        (DispatchBorderButtonEvent example_env (example_press 10 10 2147484648) 0
           (DispatchBorderButtonEvent example_env (example_press 10 10 1000) 0 example_world))
       = [CallShadeClient 10]"
proof -
  let ?e1 = "example_press 10 10 1000"
  let ?s1 = "DispatchBorderButtonEvent example_env ?e1 0 example_world"
  have o: "has_border BORDER_OUTLINE (clients example_world ! 0)"
    by (simp add: example_world_def example_client_def has_border_def BORDER_OUTLINE_def)
  have p: "b_type (example_press x y t) = ButtonPress" for x y t
    by (simp add: example_press_def ButtonPress_def)
  have z: "GetBorderActionType example_env (clients example_world ! 0)
             (b_x (example_press x y t)) (b_y (example_press x y t)) AND 0x0F = BA_MOVE"
    for x y t
    by (simp add: example_env_def BA_MOVE_def)
  have w: "10 = c_window (clients example_world ! 0)"
    by (simp add: example_world_def example_client_def)
  have g: "CallShadeClient 10 = (if has_status STAT_SHADED (clients example_world ! 0)
                           then CallUnshadeClient 10 else CallShadeClient 10)"
    by (simp add: example_world_def example_client_def has_status_def STAT_SHADED_def)
  have d: "False \<longleftrightarrow>
         doubleClickActive example_world
         \<and> c_abs (sint (b_time ?e1 - lastClickTime example_world)) \<le> doubleClickSpeed example_env
         \<and> c_abs (c_sub (b_x ?e1) (lastX example_world)) \<le> doubleClickDelta example_env
         \<and> c_abs (c_sub (b_y ?e1) (lastY example_world)) \<le> doubleClickDelta example_env"
    by (simp add: example_world_def)
  have c: "doubleClickSpeed example_env = 400" "doubleClickDelta example_env = 2"
    "\<not> MoveClient example_env example_world (clients example_world ! 0) (b_x ?e1) (b_y ?e1)"
    by (simp_all add: example_env_def)
  have v: "b_x (example_press x y t) = x" "b_y (example_press x y t) = y"
    "b_time (example_press x y t) = t" for x y t
    by (simp_all add: example_press_def)
  note rule = double_click_rule [OF o p [of 10 10 1000] z [of 10 10 1000]
      p [of 10 10 2147484648] z [of 10 10 2147484648] w g d refl refl]
  from rule have a1: "new_calls example_world ?s1 = [CallMoveClient 10 10 10]"
    by (simp add: v)
  from rule c have a2: "doubleClickActive ?s1"
    by (simp add: v)
  from rule c have a3: "new_calls ?s1
      (DispatchBorderButtonEvent example_env (example_press 10 10 2147484648) 0 ?s1)
       = [CallShadeClient 10]"
    by (simp add: v c_abs_def c_sub_def int32_def)
  have t: "uint (b_time (example_press 10 10 2147484648) - b_time ?e1) = 2 ^ 31"
    by (simp add: v)
  show ?thesis
    using c(1) t a1 a2 a3 by simp
qed

text \<open>Claim C5. A button-1 event on the frame of a client goes, after raise and focus,
  to the border dispatch. Without the outline flag the dispatch does nothing. With it:
  in a resize zone a press starts a resize; in the move zone a press makes the one call
  of the double-click rule and a release does nothing; in the close, maximize and
  minimize zones the transition is called on release only, and a press does nothing; in
  any other zone nothing happens.\<close>

theorem border_button_dispatch:
  assumes np: "np = clients s ! i"
    and w: "w = c_window np"
    and action: "action = GetBorderActionType env np (b_x e) (b_y e)"
    and zone: "zone = action AND 0x0F"
    and s': "s' = DispatchBorderButtonEvent env e i s"
  shows "(FindClientByParent s (b_window e) = Some i \<and> b_button e = Button1 \<longrightarrow>
            HandleButtonEvent env e s =
              call CallUpdatePager
                (DispatchBorderButtonEvent env e i
                   (do_when (focusModel env = FOCUS_CLICK) (call (CallFocusClient w))
                      (call (CallRaiseClient w) s))))
       \<and> (\<not> has_border BORDER_OUTLINE np \<longrightarrow> s' = s)
       \<and> (has_border BORDER_OUTLINE np \<longrightarrow>
            (zone = BA_RESIZE \<longrightarrow>
               s' = (if b_type e = ButtonPress
                     then call (CallResizeClient w action (b_x e) (b_y e)) s else s))
          \<and> (zone = BA_MOVE \<and> b_type e = ButtonPress \<longrightarrow>
               new_calls s s' =
                 [if is_double_click env e s
                  then (if has_status STAT_SHADED np then CallUnshadeClient w
                        else CallShadeClient w)
                  else CallMoveClient w (b_x e) (b_y e)])
          \<and> (zone = BA_MOVE \<and> b_type e \<noteq> ButtonPress \<longrightarrow> s' = s)
          \<and> (zone = BA_CLOSE \<longrightarrow>
               s' = (if b_type e = ButtonRelease then call (CallDeleteClient w) s else s))
          \<and> (zone = BA_MAXIMIZE \<longrightarrow>
               s' = (if b_type e = ButtonRelease then call (CallMaximizeClient w) s else s))
          \<and> (zone = BA_MINIMIZE \<longrightarrow>
               s' = (if b_type e = ButtonRelease then call (CallMinimizeClient w) s else s))
          \<and> (zone \<in> {BA_CLOSE, BA_MAXIMIZE, BA_MINIMIZE} \<and> b_type e = ButtonPress \<longrightarrow> s' = s)
          \<and> (zone \<notin> {BA_RESIZE, BA_MOVE, BA_CLOSE, BA_MAXIMIZE, BA_MINIMIZE} \<longrightarrow> s' = s))"
proof -
  have button: "HandleButtonEvent env e s =
              call CallUpdatePager
                (DispatchBorderButtonEvent env e i
                   (do_when (focusModel env = FOCUS_CLICK) (call (CallFocusClient w))
                      (call (CallRaiseClient w) s)))"
    if "FindClientByParent s (b_window e) = Some i" "b_button e = Button1"
    using that by (simp add: HandleButtonEvent_def Let_def np w)
  have plain: "s' = s" if "\<not> has_border BORDER_OUTLINE np"
    using that by (simp add: s' DispatchBorderButtonEvent_def np)
  have resize: "s' = (if b_type e = ButtonPress
                     then call (CallResizeClient w action (b_x e) (b_y e)) s else s)"
    if "has_border BORDER_OUTLINE np" "zone = BA_RESIZE"
    using that unfolding s' DispatchBorderButtonEvent_def np w action zone
    by (simp add: Let_def do_when_def)
  have move: "new_calls s s' =
                 [if is_double_click env e s
                  then (if has_status STAT_SHADED np then CallUnshadeClient w
                        else CallShadeClient w)
                  else CallMoveClient w (b_x e) (b_y e)]"
    if "has_border BORDER_OUTLINE np" "zone = BA_MOVE" "b_type e = ButtonPress"
    using that unfolding s' DispatchBorderButtonEvent_def np w action zone
    by (simp add: Let_def zone_codes new_calls_def call_def)
  have move_release: "s' = s"
    if "has_border BORDER_OUTLINE np" "zone = BA_MOVE" "b_type e \<noteq> ButtonPress"
    using that unfolding s' DispatchBorderButtonEvent_def np w action zone
    by (simp add: Let_def zone_codes)
  have close: "s' = (if b_type e = ButtonRelease then call (CallDeleteClient w) s else s)"
    if "has_border BORDER_OUTLINE np" "zone = BA_CLOSE"
    using that unfolding s' DispatchBorderButtonEvent_def np w action zone
    by (simp add: Let_def zone_codes do_when_def)
  have maximize: "s' = (if b_type e = ButtonRelease then call (CallMaximizeClient w) s else s)"
    if "has_border BORDER_OUTLINE np" "zone = BA_MAXIMIZE"
    using that unfolding s' DispatchBorderButtonEvent_def np w action zone
    by (simp add: Let_def zone_codes do_when_def)
  have minimize: "s' = (if b_type e = ButtonRelease then call (CallMinimizeClient w) s else s)"
    if "has_border BORDER_OUTLINE np" "zone = BA_MINIMIZE"
    using that unfolding s' DispatchBorderButtonEvent_def np w action zone
    by (simp add: Let_def zone_codes do_when_def)
  have press_ignored: "s' = s"
    if "has_border BORDER_OUTLINE np" "zone \<in> {BA_CLOSE, BA_MAXIMIZE, BA_MINIMIZE}"
      "b_type e = ButtonPress"
    using that close maximize minimize by (auto simp: ButtonPress_def ButtonRelease_def)
  have other: "s' = s"
    if "has_border BORDER_OUTLINE np"
      "zone \<notin> {BA_RESIZE, BA_MOVE, BA_CLOSE, BA_MAXIMIZE, BA_MINIMIZE}"
    using that unfolding s' DispatchBorderButtonEvent_def np w action zone
    by (simp add: Let_def)
  from button plain resize move move_release close maximize minimize press_ignored other
  show ?thesis by blast
qed

theorem border_button_dispatch_witness:
  "\<not> has_border BORDER_OUTLINE (clients bare_world ! 0)
   \<and> DispatchBorderButtonEvent example_env (example_press 10 10 1000) 0 bare_world = bare_world
   \<and> has_border BORDER_OUTLINE (clients example_world ! 0)
   \<and> DispatchBorderButtonEvent (zone_env 0x11) (example_press 10 10 1000) 0 example_world
       = call (CallResizeClient 10 0x11 10 10) example_world
   \<and> DispatchBorderButtonEvent (zone_env BA_CLOSE) (example_press 10 10 1000) 0 example_world
       = example_world
   \<and> DispatchBorderButtonEvent (zone_env BA_CLOSE) example_release 0 example_world
       = call (CallDeleteClient 10) example_world
   \<and> DispatchBorderButtonEvent (zone_env BA_MAXIMIZE) example_release 0 example_world
       = call (CallMaximizeClient 10) example_world
   \<and> DispatchBorderButtonEvent (zone_env BA_MINIMIZE) example_release 0 example_world
       = call (CallMinimizeClient 10) example_world
   \<and> new_calls example_world
        (DispatchBorderButtonEvent (zone_env BA_MOVE) (example_press 10 10 1000) 0 example_world)
       = [CallMoveClient 10 10 10]"
proof -
  let ?p = "example_press 10 10 1000"
  have bare: "\<not> has_border BORDER_OUTLINE (clients bare_world ! 0)"
    by (simp add: bare_world_def has_border_def)
  have outline: "has_border BORDER_OUTLINE (clients example_world ! 0)"
    by (simp add: example_world_def example_client_def has_border_def BORDER_OUTLINE_def)
  have w: "c_window (clients example_world ! 0) = 10"
    by (simp add: example_world_def example_client_def)
  have z: "GetBorderActionType (zone_env a) np x y = a" for a np x y
    by (simp add: zone_env_def)
  have e: "b_type ?p = ButtonPress" "b_type example_release = ButtonRelease"
    "b_type ?p \<noteq> ButtonRelease" "b_x ?p = 10" "b_y ?p = 10"
    by (simp_all add: example_press_def example_release_def ButtonPress_def ButtonRelease_def)
  have k: "(0x11 :: 32 word) AND 0x0F = BA_RESIZE" "BA_CLOSE AND 0x0F = BA_CLOSE"
    "BA_MAXIMIZE AND 0x0F = BA_MAXIMIZE" "BA_MINIMIZE AND 0x0F = BA_MINIMIZE"
    "BA_MOVE AND 0x0F = BA_MOVE"
    by (simp_all add: zone_codes)
  have nd: "\<not> is_double_click (zone_env BA_MOVE) ?p example_world"
    by (simp add: is_double_click_def example_world_def)
  from border_button_dispatch [OF refl refl refl refl refl,
      where env = example_env and e = "?p" and i = 0 and s = bare_world] bare
  have a: "DispatchBorderButtonEvent example_env ?p 0 bare_world = bare_world"
    by blast
  from border_button_dispatch [OF refl refl refl refl refl,
      where env = "zone_env 0x11" and e = "?p" and i = 0 and s = example_world]
    outline w z e k
  have b: "DispatchBorderButtonEvent (zone_env 0x11) ?p 0 example_world
       = call (CallResizeClient 10 0x11 10 10) example_world"
    by simp
  from border_button_dispatch [OF refl refl refl refl refl,
      where env = "zone_env BA_CLOSE" and e = "?p" and i = 0 and s = example_world]
    outline w z e k
  have c: "DispatchBorderButtonEvent (zone_env BA_CLOSE) ?p 0 example_world = example_world"
    by simp
  from border_button_dispatch [OF refl refl refl refl refl,
      where env = "zone_env BA_CLOSE" and e = example_release and i = 0 and s = example_world]
    outline w z e k
  have d: "DispatchBorderButtonEvent (zone_env BA_CLOSE) example_release 0 example_world
       = call (CallDeleteClient 10) example_world"
    by simp
  from border_button_dispatch [OF refl refl refl refl refl,
      where env = "zone_env BA_MAXIMIZE" and e = example_release and i = 0
        and s = example_world]
    outline w z e k
  have f: "DispatchBorderButtonEvent (zone_env BA_MAXIMIZE) example_release 0 example_world
       = call (CallMaximizeClient 10) example_world"
    by simp
  from border_button_dispatch [OF refl refl refl refl refl,
      where env = "zone_env BA_MINIMIZE" and e = example_release and i = 0
        and s = example_world]
    outline w z e k
  have g: "DispatchBorderButtonEvent (zone_env BA_MINIMIZE) example_release 0 example_world
       = call (CallMinimizeClient 10) example_world"
    by simp
  from border_button_dispatch [OF refl refl refl refl refl,
      where env = "zone_env BA_MOVE" and e = "?p" and i = 0 and s = example_world]
    outline w z e k nd
  have h: "new_calls example_world
        (DispatchBorderButtonEvent (zone_env BA_MOVE) ?p 0 example_world)
       = [CallMoveClient 10 10 10]"
    by simp
  show ?thesis
    using bare outline a b c d f g h by simp
qed

subsection \<open>Client messages\<close>

text \<open>Claim C6. For a desktop-assignment message on a managed client whose index is not
  the sentinel - 1: the desktop is assigned if and only if the index is at least 0 and
  below the desktop count. Then the sticky flag is cleared first and the desktop set on
  the state without it. Otherwise, for the desktop count itself, anything larger and
  anything negative, only the controller is notified and the clients are as before.\<close>

theorem desktop_assignment_range:
  assumes found: "FindClientByWindow s (cm_window e) = Some i"
    and msg: "cm_message_type e = atoms env ATOM_NET_WM_DESKTOP"
    and earlier: "cm_message_type e \<notin> {atoms env ATOM_WIN_STATE, atoms env ATOM_WIN_LAYER,
                    atoms env ATOM_WM_CHANGE_STATE, atoms env ATOM_NET_ACTIVE_WINDOW}"
    and index: "cm_data_l e 0 \<noteq> - 1"
  shows "(CallSetClientDesktop (c_window (clients s ! i)) (cm_data_l e 0)
            \<in> set (new_calls s (HandleClientMessage env e s))
          \<longleftrightarrow> 0 \<le> cm_data_l e 0 \<and> cm_data_l e 0 < desktopCount env)
       \<and> (0 \<le> cm_data_l e 0 \<and> cm_data_l e 0 < desktopCount env \<longrightarrow>
            HandleClientMessage env e s
              = SetClientDesktop i (cm_data_l e 0)
                  (modify_client i (clear_status STAT_STICKY) (notify_controller i 0 s))
            \<and> \<not> has_status STAT_STICKY
                  (clients (modify_client i (clear_status STAT_STICKY)
                              (notify_controller i 0 s)) ! i)
            \<and> \<not> has_status STAT_STICKY (clients (HandleClientMessage env e s) ! i)
            \<and> desktop (c_state (clients (HandleClientMessage env e s) ! i))
                = word_of_int (cm_data_l e 0))
       \<and> (\<not> (0 \<le> cm_data_l e 0 \<and> cm_data_l e 0 < desktopCount env) \<longrightarrow>
            HandleClientMessage env e s = notify_controller i 0 s
            \<and> clients (HandleClientMessage env e s) = clients s)"
proof -
  let ?d = "cm_data_l e 0"
  let ?s1 = "notify_controller i 0 s"
  have bound: "i < length (clients s)"
    using found by (rule FindClientByWindow_bound)
  have eq: "HandleClientMessage env e s =
      (if 0 \<le> ?d \<and> ?d < desktopCount env
       then SetClientDesktop i ?d (modify_client i (clear_status STAT_STICKY) ?s1)
       else ?s1)"
    using found msg earlier index by (simp add: HandleClientMessage_def Let_def)
  show ?thesis
  proof (cases "0 \<le> ?d \<and> ?d < desktopCount env")
    case True
    then have h: "HandleClientMessage env e s
        = SetClientDesktop i ?d (modify_client i (clear_status STAT_STICKY) ?s1)"
      using eq by simp
    have calls: "new_calls s (HandleClientMessage env e s)
        = new_calls s ?s1 @ [CallSetClientDesktop (c_window (clients s ! i)) ?d]"
      using bound unfolding h
      by (simp add: SetClientDesktop_def modify_client_def new_calls_def call_def
          notify_controller_def clear_status_def)
    have cleared: "\<not> has_status STAT_STICKY
        (clients (modify_client i (clear_status STAT_STICKY) ?s1) ! i)"
      using bound by (simp add: modify_client_def sticky_cleared)
    have after: "clients (HandleClientMessage env e s) ! i
        = (clear_status STAT_STICKY (clients s ! i))
            \<lparr>c_state := (c_state (clear_status STAT_STICKY (clients s ! i)))
                           \<lparr>desktop := word_of_int ?d\<rparr>\<rparr>"
      using bound unfolding h by (simp add: SetClientDesktop_def modify_client_def)
    have "\<not> has_status STAT_STICKY (clients (HandleClientMessage env e s) ! i)"
      unfolding after using sticky_cleared [of STAT_STICKY "clients s ! i"]
      by (simp add: has_status_def)
    moreover have "desktop (c_state (clients (HandleClientMessage env e s) ! i))
        = word_of_int ?d"
      unfolding after by simp
    ultimately show ?thesis
      using True h calls cleared by simp
  next
    case False
    then have h: "HandleClientMessage env e s = ?s1"
      using eq by auto
    have "CallSetClientDesktop (c_window (clients s ! i)) ?d \<notin> set (new_calls s ?s1)"
      by (simp add: new_calls_notify_controller)
    with False h show ?thesis by auto
  qed
qed

theorem desktop_assignment_range_witness:
  "FindClientByWindow example_world (cm_window (desktop_message 4)) = Some 0
   \<and> cm_message_type (desktop_message 4) = atoms example_env ATOM_NET_WM_DESKTOP
   \<and> cm_message_type (desktop_message 4)
        \<notin> {atoms example_env ATOM_WIN_STATE, atoms example_env ATOM_WIN_LAYER,
            atoms example_env ATOM_WM_CHANGE_STATE, atoms example_env ATOM_NET_ACTIVE_WINDOW}
   \<and> cm_data_l (desktop_message 4) 0 \<noteq> - 1
   \<and> desktopCount example_env = 4
   \<and> clients (HandleClientMessage example_env (desktop_message 4) example_world)
        = clients example_world
   \<and> desktop (c_state (clients (HandleClientMessage example_env (desktop_message 3)
                                    example_world) ! 0)) = 3
   \<and> new_calls example_world (HandleClientMessage example_env (desktop_message 3) example_world)
        = [CallController 10 0, CallSetClientDesktop 10 3]"
proof -
  have f: "FindClientByWindow example_world (cm_window (desktop_message d)) = Some 0" for d
    by (simp add: FindClientByWindow_def example_world_def example_client_def
        desktop_message_def)
  have m: "cm_message_type (desktop_message d) = atoms example_env ATOM_NET_WM_DESKTOP" for d
    by (simp add: desktop_message_def example_env_def)
  have n: "cm_message_type (desktop_message d)
        \<notin> {atoms example_env ATOM_WIN_STATE, atoms example_env ATOM_WIN_LAYER,
            atoms example_env ATOM_WM_CHANGE_STATE, atoms example_env ATOM_NET_ACTIVE_WINDOW}"
    for d
    by (simp add: desktop_message_def example_env_def)
  have i4: "cm_data_l (desktop_message 4) 0 \<noteq> - 1" and i3: "cm_data_l (desktop_message 3) 0 \<noteq> - 1"
    by (simp_all add: desktop_message_def)
  have v: "cm_data_l (desktop_message 4) 0 = 4" "cm_data_l (desktop_message 3) 0 = 3"
    "desktopCount example_env = 4"
    by (simp_all add: desktop_message_def example_env_def)
  note out = desktop_assignment_range [OF f m n i4]
  note inside = desktop_assignment_range [OF f m n i3]
  have out_of_range: "\<not> (0 \<le> cm_data_l (desktop_message 4) 0
        \<and> cm_data_l (desktop_message 4) 0 < desktopCount example_env)"
    and in_range: "0 \<le> cm_data_l (desktop_message 3) 0
        \<and> cm_data_l (desktop_message 3) 0 < desktopCount example_env"
    using v by simp_all
  from out out_of_range
  have a: "clients (HandleClientMessage example_env (desktop_message 4) example_world)
        = clients example_world"
    by blast
  from inside in_range
  have h: "HandleClientMessage example_env (desktop_message 3) example_world
      = SetClientDesktop 0 (cm_data_l (desktop_message 3) 0)
          (modify_client 0 (clear_status STAT_STICKY) (notify_controller 0 0 example_world))"
    by blast
  from inside in_range
  have "desktop (c_state (clients (HandleClientMessage example_env (desktop_message 3)
                                    example_world) ! 0))
      = word_of_int (cm_data_l (desktop_message 3) 0)"
    by blast
  then have b: "desktop (c_state (clients (HandleClientMessage example_env (desktop_message 3)
                                    example_world) ! 0)) = 3"
    using v by simp
  have c: "new_calls example_world
             (HandleClientMessage example_env (desktop_message 3) example_world)
        = [CallController 10 0, CallSetClientDesktop 10 3]"
    unfolding h v
    by (simp add: SetClientDesktop_def modify_client_def notify_controller_def new_calls_def
        call_def example_world_def example_client_def clear_status_def)
  show ?thesis
    using f m n i4 v a b c by simp
qed

subsection \<open>Colormap changes\<close>

text \<open>Claim C7. A colormap event that is not flagged new, or whose window resolves to
  no client, changes nothing. One that is flagged new and resolves to a client stores
  the colormap in that client, leaves everything else of the clients as it was, and
  calls the colormap refresh for it. So the refresh is called if and only if the event
  is flagged new and the window resolves to a client.\<close>

theorem colormap_change:
  "(co_new e \<noteq> XTrue \<longrightarrow> HandleColormapChange e s = s)
   \<and> (FindClientByWindow s (co_window e) = None \<longrightarrow> HandleColormapChange e s = s)
   \<and> (\<forall>i. co_new e = XTrue \<and> FindClientByWindow s (co_window e) = Some i \<longrightarrow>
          clients (HandleColormapChange e s)
            = (clients s)[i := (clients s ! i)\<lparr>c_cmap := co_colormap e\<rparr>]
          \<and> c_cmap (clients (HandleColormapChange e s) ! i) = co_colormap e
          \<and> new_calls s (HandleColormapChange e s)
              = [CallUpdateClientColormap (c_window (clients s ! i))])
   \<and> (new_calls s (HandleColormapChange e s) \<noteq> []
        \<longleftrightarrow> co_new e = XTrue \<and> FindClientByWindow s (co_window e) \<noteq> None)"
  by (auto simp: HandleColormapChange_def modify_client_def new_calls_def call_def
      dest: FindClientByWindow_bound split: option.splits)

theorem colormap_change_witness:
  "FindClientByWindow example_world 10 = Some 0
   \<and> HandleColormapChange \<lparr>co_window = 10, co_colormap = 7, co_new = 0\<rparr> example_world
       = example_world
   \<and> c_cmap (clients example_world ! 0) = 0
   \<and> c_cmap (clients (HandleColormapChange \<lparr>co_window = 10, co_colormap = 7, co_new = 1\<rparr>
                        example_world) ! 0) = 7
   \<and> new_calls example_world
        (HandleColormapChange \<lparr>co_window = 10, co_colormap = 7, co_new = 1\<rparr> example_world)
       = [CallUpdateClientColormap 10]"
proof -
  have f: "FindClientByWindow example_world 10 = Some 0"
    by (simp add: FindClientByWindow_def example_world_def example_client_def)
  have w: "c_window (clients example_world ! 0) = 10" "c_cmap (clients example_world ! 0) = 0"
    "length (clients example_world) = 1"
    by (simp_all add: example_world_def example_client_def)
  show ?thesis
    using colormap_change [of "\<lparr>co_window = 10, co_colormap = 7, co_new = 0\<rparr>" example_world]
      colormap_change [of "\<lparr>co_window = 10, co_colormap = 7, co_new = 1\<rparr>" example_world]
      f w
    by (simp add: XTrue_def)
qed

subsection \<open>Key presses\<close>

lemma key_noop:
  assumes "key_target env e s = None"
    and "GetKey env e AND 0xFF = k"
    and "k \<in> {KEY_CLOSE, KEY_SHADE, KEY_MOVE, KEY_RESIZE, KEY_MIN, KEY_MAX, KEY_WIN}"
  shows "HandleKeyPress env e s = s"
  using assms(3) unfolding HandleKeyPress_def Let_def assms(1,2)
  by (auto simp add: with_client_def key_codes)

text \<open>Claim C8. When no target client resolves (click focus and no client for the
  sub-window of the event, or another focus model and no active client), a key press
  bound to close, shade, move, resize, minimize, maximize or the window menu changes
  nothing and calls nothing.\<close>

theorem key_command_without_target_is_noop:
  assumes "(focusModel env = FOCUS_CLICK \<and> FindClientByWindow s (k_subwindow e) = None)
         \<or> (focusModel env \<noteq> FOCUS_CLICK \<and> GetActiveClient env s = None)"
    and "GetKey env e AND 0xFF \<in> {KEY_CLOSE, KEY_SHADE, KEY_MOVE, KEY_RESIZE, KEY_MIN,
            KEY_MAX, KEY_WIN}"
  shows "HandleKeyPress env e s = s"
proof -
  from assms(1) have "key_target env e s = None"
    by (auto simp: key_target_def)
  then show ?thesis
    using refl assms(2) by (rule key_noop)
qed

theorem key_command_without_target_is_noop_witness:
  "focusModel example_env \<noteq> FOCUS_CLICK \<and> GetActiveClient example_env example_world = None
   \<and> GetKey example_env \<lparr>k_window = 2, k_subwindow = 10, k_keycode = 0, k_state = 0\<rparr> AND 0xFF
       = KEY_CLOSE
   \<and> HandleKeyPress example_env \<lparr>k_window = 2, k_subwindow = 10, k_keycode = 0, k_state = 0\<rparr>
        example_world = example_world
   \<and> focusModel (example_env\<lparr>focusModel := FOCUS_CLICK, GetKey := (\<lambda>e. KEY_MAX)\<rparr>) = FOCUS_CLICK
   \<and> FindClientByWindow example_world 0 = None
   \<and> HandleKeyPress (example_env\<lparr>focusModel := FOCUS_CLICK, GetKey := (\<lambda>e. KEY_MAX)\<rparr>)
        \<lparr>k_window = 2, k_subwindow = 0, k_keycode = 0, k_state = 0\<rparr> example_world
       = example_world"
proof -
  let ?e = "\<lparr>k_window = 2, k_subwindow = 10, k_keycode = 0, k_state = 0\<rparr>"
  let ?e' = "\<lparr>k_window = 2, k_subwindow = 0, k_keycode = 0, k_state = 0\<rparr>"
  let ?env' = "example_env\<lparr>focusModel := FOCUS_CLICK, GetKey := (\<lambda>e. KEY_MAX)\<rparr>"
  have a: "focusModel example_env \<noteq> FOCUS_CLICK" "GetActiveClient example_env example_world = None"
    "GetKey example_env ?e AND 0xFF = KEY_CLOSE"
    by (simp_all add: example_env_def KEY_CLOSE_def)
  have b: "focusModel ?env' = FOCUS_CLICK" "GetKey ?env' ?e' AND 0xFF = KEY_MAX"
    by (simp_all add: KEY_MAX_def)
  have c: "FindClientByWindow example_world 0 = None"
    by (simp add: FindClientByWindow_def FindClientByParent_def example_world_def
        example_client_def)
  have c': "FindClientByWindow example_world (k_subwindow ?e') = None"
    using c by simp
  have "HandleKeyPress example_env ?e example_world = example_world"
    using a by (intro key_command_without_target_is_noop) simp_all
  moreover have "HandleKeyPress ?env' ?e' example_world = example_world"
    using b c' by (intro key_command_without_target_is_noop) simp_all
  ultimately show ?thesis using a b c by simp
qed

subsection \<open>Expose and property notifications\<close>

text \<open>Claim C10, as amended. For a window that resolves to a managed client: a property
  notification is reported unhandled exactly when the client is a dialog, after the
  property has been read and the border and lists redrawn as for any client; an expose
  event with count 0 on the content window of a dialog, when that window is not also
  the decoration window, is reported unhandled; an expose event with another count is
  reported handled whatever the window; and for a client that is not a dialog both
  handlers report the event handled.\<close>

theorem dialog_events_unhandled:
  assumes found: "FindClientByWindow s w = Some i"
  shows "(ex_window e = w \<and> ex_count e = 0 \<and> c_window (clients s ! i) = w
            \<and> c_parent (clients s ! i) \<noteq> w \<and> has_status STAT_WMDIALOG (clients s ! i)
          \<longrightarrow> HandleExpose e s = (False, s))
       \<and> (ex_count e \<noteq> 0 \<longrightarrow> HandleExpose e s = (True, s))
       \<and> (ex_window e = w \<and> \<not> has_status STAT_WMDIALOG (clients s ! i)
          \<longrightarrow> fst (HandleExpose e s))
       \<and> (pr_window p = w \<longrightarrow>
            fst (HandlePropertyNotify env p s) = (\<not> has_status STAT_WMDIALOG (clients s ! i))
            \<and> snd (HandlePropertyNotify env p s)
               = (if fst (read_property env (pr_atom p) (c_window (clients s ! i)) s)
                  then call CallUpdatePager (call CallUpdateTaskBar
                         (call (CallDrawBorder (c_window (clients s ! i)))
                            (snd (read_property env (pr_atom p) (c_window (clients s ! i)) s))))
                  else snd (read_property env (pr_atom p) (c_window (clients s ! i)) s))
            \<and> clients (snd (HandlePropertyNotify env p s)) = clients s)"
proof -
  have expose_dialog: "HandleExpose e s = (False, s)"
    if "ex_window e = w" "ex_count e = 0" "c_window (clients s ! i) = w"
      "c_parent (clients s ! i) \<noteq> w" "has_status STAT_WMDIALOG (clients s ! i)"
    using that found by (simp add: HandleExpose_def Let_def)
  have expose_more: "HandleExpose e s = (True, s)" if "ex_count e \<noteq> 0"
    using that by (simp add: HandleExpose_def)
  have expose_plain: "fst (HandleExpose e s)"
    if "ex_window e = w" "\<not> has_status STAT_WMDIALOG (clients s ! i)"
    using that found by (simp add: HandleExpose_def Let_def)
  have property: "fst (HandlePropertyNotify env p s) = (\<not> has_status STAT_WMDIALOG (clients s ! i))
            \<and> snd (HandlePropertyNotify env p s)
               = (if fst (read_property env (pr_atom p) (c_window (clients s ! i)) s)
                  then call CallUpdatePager (call CallUpdateTaskBar
                         (call (CallDrawBorder (c_window (clients s ! i)))
                            (snd (read_property env (pr_atom p) (c_window (clients s ! i)) s))))
                  else snd (read_property env (pr_atom p) (c_window (clients s ! i)) s))
            \<and> clients (snd (HandlePropertyNotify env p s)) = clients s"
    if "pr_window p = w"
    using that found
    by (simp add: HandlePropertyNotify_def Let_def case_prod_unfold clients_read_property)
  from expose_dialog expose_more expose_plain property show ?thesis
    by blast
qed

text \<open>Claim C10 as stated fails: an expose event on the content window of a dialog that
  has more expose events following it (count 3) is reported handled.\<close>

theorem expose_count_counterexample:
  "FindClientByWindow dialog_world 10 = Some 0
   \<and> c_window (clients dialog_world ! 0) = 10
   \<and> has_status STAT_WMDIALOG (clients dialog_world ! 0)
   \<and> HandleExpose \<lparr>ex_window = 10, ex_count = 3\<rparr> dialog_world = (True, dialog_world)"
  by (simp add: HandleExpose_def FindClientByWindow_def dialog_world_def example_world_def
      example_dialog_def example_client_def has_status_def STAT_WMDIALOG_def)

theorem dialog_events_unhandled_witness:
  "FindClientByWindow dialog_world 10 = Some 0
   \<and> c_window (clients dialog_world ! 0) = 10
   \<and> c_parent (clients dialog_world ! 0) \<noteq> 10
   \<and> has_status STAT_WMDIALOG (clients dialog_world ! 0)
   \<and> HandleExpose \<lparr>ex_window = 10, ex_count = 0\<rparr> dialog_world = (False, dialog_world)
   \<and> HandleExpose \<lparr>ex_window = 10, ex_count = 3\<rparr> dialog_world = (True, dialog_world)
   \<and> fst (HandlePropertyNotify example_env \<lparr>pr_window = 10, pr_atom = 39\<rparr> dialog_world) = False
   \<and> new_calls dialog_world
        (snd (HandlePropertyNotify example_env \<lparr>pr_window = 10, pr_atom = 39\<rparr> dialog_world))
       = [CallReadWMName 10, CallDrawBorder 10, CallUpdateTaskBar, CallUpdatePager]"
proof -
  let ?e0 = "\<lparr>ex_window = 10, ex_count = 0\<rparr>"
  let ?e3 = "\<lparr>ex_window = 10, ex_count = 3\<rparr>"
  let ?p = "\<lparr>pr_window = 10, pr_atom = 39\<rparr>"
  have f: "FindClientByWindow dialog_world 10 = Some 0"
    by (simp add: FindClientByWindow_def dialog_world_def example_world_def
        example_dialog_def example_client_def)
  have c: "c_window (clients dialog_world ! 0) = 10" "c_parent (clients dialog_world ! 0) \<noteq> 10"
    "has_status STAT_WMDIALOG (clients dialog_world ! 0)"
    by (simp_all add: dialog_world_def example_world_def example_dialog_def example_client_def
        has_status_def STAT_WMDIALOG_def)
  have r: "read_property example_env 39 10 dialog_world
      = (True, call (CallReadWMName 10) dialog_world)"
    by (simp add: read_property_def XA_WM_NAME_def)
  have t: "trace dialog_world = []"
    by (simp add: dialog_world_def example_world_def)
  note main = dialog_events_unhandled [OF f, where env = example_env and p = "?p"]
  from main [where e = "?e0"] c have a: "HandleExpose ?e0 dialog_world = (False, dialog_world)"
    by simp
  from main [where e = "?e3"] have b: "HandleExpose ?e3 dialog_world = (True, dialog_world)"
    by simp
  from main [where e = "?e0"] c
  have d: "fst (HandlePropertyNotify example_env ?p dialog_world) = False"
    by simp
  from main [where e = "?e0"] c r
  have "snd (HandlePropertyNotify example_env ?p dialog_world)
      = call CallUpdatePager (call CallUpdateTaskBar (call (CallDrawBorder 10)
          (call (CallReadWMName 10) dialog_world)))"
    by simp
  then have g: "new_calls dialog_world (snd (HandlePropertyNotify example_env ?p dialog_world))
       = [CallReadWMName 10, CallDrawBorder 10, CallUpdateTaskBar, CallUpdatePager]"
    using t by (simp add: new_calls_def)
  show ?thesis
    using f c a b d g by simp
qed

end
